theory Spec2Isabelle
  imports Complex_Main "HOL-Library.Multiset" "HOL-Library.Product_Lexorder" "HOL-Library.AList"
begin

section \<open>Conventions of the embedding\<close>

text \<open>
  The two modules verified here are \<^verbatim>\<open>ifscube/onedspec.py\<close> (class \<^verbatim>\<open>Spectrum\<close>) and
  \<^verbatim>\<open>ifscube/datacube.py\<close> (class \<^verbatim>\<open>Cube\<close>).

  A numpy array of floats is a \<open>real list\<close>; arithmetic is exact. Where the source
  would go on with a value that is no real number (the mean of an empty selection, a
  division by zero inside numpy, the square root of a negative sum) the model stops with
  the outcome \<open>NonFinite\<close>, which is no Python exception but the border of the model;
  \<open>Unmodelled\<close> marks the one call the model does not follow, \<^verbatim>\<open>Spectrum.linefit\<close> on a
  two-dimensional initial guess.
  An exception of the source is a value \<open>Inl e\<close>; a normal return is \<open>Inr v\<close>.
\<close>

datatype error =
    NameError | TypeError | KeyError | AttributeError | ValueError | IndexError
  | ZeroDivisionError | RuntimeError | AssertionError | NonFinite | Unmodelled

text \<open>The values of \<open>error\<close> that are exceptions of the source.\<close>

definition is_exception :: "error \<Rightarrow> bool" where
  "is_exception e \<longleftrightarrow> e \<noteq> NonFinite \<and> e \<noteq> Unmodelled"

definition ebind :: "error + 'a \<Rightarrow> ('a \<Rightarrow> error + 'b) \<Rightarrow> error + 'b" where
  "ebind m f = (case m of Inl e \<Rightarrow> Inl e | Inr v \<Rightarrow> f v)"

text \<open>Reading an attribute of a Python object: a missing attribute raises.\<close>

definition getattr :: "'a option \<Rightarrow> error + 'a" where
  "getattr a = (case a of None \<Rightarrow> Inl AttributeError | Some v \<Rightarrow> Inr v)"

section \<open>Cube._spiral\<close>

text \<open>A spatial coordinate is a pair (row, column), as the rows of \<^verbatim>\<open>spec_indices\<close> are.\<close>

type_synonym coord = "int \<times> int"

text \<open>\<^verbatim>\<open>numpy.arctan2(y, x)\<close>: the angle of the point (x, y), in [-pi, pi].\<close>

definition arctan2 :: "real \<Rightarrow> real \<Rightarrow> real" where
  "arctan2 y x =
     (if 0 < x then arctan (y / x)
      else if x < 0 then (if 0 \<le> y then arctan (y / x) + pi else arctan (y / x) - pi)
      else if 0 < y then pi / 2
      else if y < 0 then - (pi / 2)
      else 0)"

text \<open>\<^verbatim>\<open>a.max()\<close> of an integer array; numpy raises ValueError on an empty one.\<close>

fun amax :: "int list \<Rightarrow> error + int" where
  "amax [] = Inl ValueError"
| "amax (a # as) = Inr (fold max as a)"

text \<open>
  \<^verbatim>\<open>r = np.sqrt((x - spiral_center[0]) ** 2 + (y - spiral_center[1]) ** 2)\<close> and
  \<^verbatim>\<open>t = np.arctan2(y - spiral_center[1], x - spiral_center[0]); t[t < 0] += 2 * np.pi\<close>,
  for one coordinate: \<open>y\<close> is its row, \<open>x\<close> its column, and the centre is (x0, y0).
\<close>

definition radius :: "real \<times> real \<Rightarrow> coord \<Rightarrow> real" where
  "radius c p = sqrt ((real_of_int (snd p) - fst c)\<^sup>2 + (real_of_int (fst p) - snd c)\<^sup>2)"

definition angle :: "real \<times> real \<Rightarrow> coord \<Rightarrow> real" where
  "angle c p =
     (let t = arctan2 (real_of_int (fst p) - snd c) (real_of_int (snd p) - fst c)
      in if t < 0 then t + 2 * pi else t)"

text \<open>
  \<^verbatim>\<open>np.argsort(b, axis=0, order=['radius', 'angle'])\<close> sorts the records by radius, then by
  angle; \<^verbatim>\<open>np.column_stack([np.ravel(y)[s], np.ravel(x)[s]])\<close> lists the coordinates in
  that order. Two coordinates with the same radius and the same angle are the same
  coordinate (lemma \<open>spiral_key_inj\<close> below), so the order among equal keys, which
  numpy's sort leaves open, does not change the result.
\<close>

definition spiral_sort :: "real \<times> real \<Rightarrow> coord list \<Rightarrow> coord list" where
  "spiral_sort c cs = sort_key (\<lambda>p. (radius c p, angle c p)) cs"

text \<open>
  \<^verbatim>\<open>Cube._spiral(self, xy, spiral_center=None)\<close>. The arguments \<open>binned\<close> and
  \<open>spec_indices\<close> are the attributes of \<^verbatim>\<open>self\<close> the method reads.
\<close>

definition spiral ::
  "bool \<Rightarrow> coord list \<Rightarrow> coord list \<Rightarrow> (real \<times> real) option \<Rightarrow> error + coord list" where
  "spiral binned spec_indices xy spiral_center =
     (let cs = (if binned then xy else spec_indices) in
      ebind (case spiral_center of
               Some c \<Rightarrow> Inr c
             | None \<Rightarrow>
                 ebind (amax (map snd cs)) (\<lambda>xmax.
                 ebind (amax (map fst cs)) (\<lambda>ymax.
                 Inr (real_of_int xmax / 2, real_of_int ymax / 2))))
        (\<lambda>c. Inr (spiral_sort c cs)))"

section \<open>Spectrum.linefit\<close>

subsection \<open>Values, objects and the code outside the two modules\<close>

text \<open>
  A dictionary of options (\<^verbatim>\<open>copts\<close>, \<^verbatim>\<open>minopts\<close>) is an association list from
  names to numbers or strings; \<^verbatim>\<open>d.update({k: v})\<close> is \<open>AList.update k v d\<close>.
  A bound is a pair \<^verbatim>\<open>[xmin, xmax]\<close>, each end a number or \<^verbatim>\<open>None\<close>.
\<close>

datatype cval = CNum real | CStr string

type_synonym pydict = "(string \<times> cval) list"

type_synonym bound = "real option \<times> real option"

typedecl constraint

text \<open>The value of \<^verbatim>\<open>fit_func\<close>: \<^verbatim>\<open>lprof.gauss\<close> or \<^verbatim>\<open>lprof.gausshermite\<close>.\<close>

datatype profile = Gauss | GaussHermite

text \<open>The result object of \<^verbatim>\<open>scipy.optimize.minimize\<close>: \<^verbatim>\<open>r['x']\<close> and \<^verbatim>\<open>r.status\<close>.\<close>

record optres =
  r_x :: "real list"
  r_status :: int

text \<open>
  The functions \<^verbatim>\<open>linefit\<close> calls that are defined outside the two modules are
  parameters of the model: the profiles \<^verbatim>\<open>lprof.gauss(wl, x)\<close> and
  \<^verbatim>\<open>lprof.gausshermite(wl, x)\<close>, the continuum \<^verbatim>\<open>st.continuum(wl, data, **copts)[1]\<close>,
  and \<^verbatim>\<open>minimize(res, x0=, method=, bounds=, constraints=, options=)\<close>. Every theorem
  below holds for all of them.
\<close>

record env =
  gauss :: "real list \<Rightarrow> real list \<Rightarrow> real list"
  gausshermite :: "real list \<Rightarrow> real list \<Rightarrow> real list"
  continuum :: "real list \<Rightarrow> real list \<Rightarrow> pydict \<Rightarrow> error + real list"
  minimize :: "(real list \<Rightarrow> real) \<Rightarrow> real list \<Rightarrow> string \<Rightarrow> bound list \<Rightarrow>
               constraint list \<Rightarrow> pydict \<Rightarrow> error + optres"

text \<open>
  A \<^verbatim>\<open>Spectrum\<close> object is a bag of attributes; \<open>None\<close> is an attribute that has not been
  set, and reading it raises AttributeError. \<^verbatim>\<open>Spectrum()\<close> with no argument sets none.
  The last block holds the attributes that only \<^verbatim>\<open>Cube.linefit\<close> sets or reads.
\<close>

record Spectrum =
  data :: "real list option"
  variance :: "real list option"
  flags :: "bool list option"
  wl :: "real list option"
  restwl :: "real list option"
  cont :: "real list option"
  fit_func :: "profile option"
  parnames :: "string list option"
  fitcont :: "real list option"
  fitwl :: "real list option"
  fitspec :: "real list option"
  resultspec :: "real list option"
  em_model :: "real list option"
  fit_status :: "int option"
  rest_wavelength :: "real list option"
  stellar :: "real list option"
  component_names :: "string list option"
  eqw_model :: "real list option"
  eqw_direct :: "real list option"
  initial_guess :: "real list option"
  fitbounds :: "bound list option"
  fitstellar :: "real list option"

definition Spectrum_new :: Spectrum where
  "Spectrum_new =
     \<lparr>data = None, variance = None, flags = None, wl = None, restwl = None, cont = None,
      fit_func = None, parnames = None, fitcont = None, fitwl = None, fitspec = None,
      resultspec = None, em_model = None, fit_status = None, rest_wavelength = None,
      stellar = None, component_names = None, eqw_model = None, eqw_direct = None,
      initial_guess = None, fitbounds = None, fitstellar = None\<rparr>"

subsection \<open>numpy operations\<close>

text \<open>\<^verbatim>\<open>a[mask]\<close> with a boolean mask: the mask must be as long as the array.\<close>

definition mask_index :: "'a list \<Rightarrow> bool list \<Rightarrow> error + 'a list" where
  "mask_index a m =
     (if length m \<noteq> length a then Inl IndexError
      else Inr (map fst (filter snd (zip a m))))"

text \<open>\<^verbatim>\<open>a & b\<close> and \<^verbatim>\<open>a - b\<close> on arrays of one shape; another shape raises ValueError.\<close>

definition np_and :: "bool list \<Rightarrow> bool list \<Rightarrow> error + bool list" where
  "np_and a b =
     (if length a \<noteq> length b then Inl ValueError
      else Inr (map (\<lambda>(p, q). p \<and> q) (zip a b)))"

definition np_sub :: "real list \<Rightarrow> real list \<Rightarrow> error + real list" where
  "np_sub a b =
     (if length a \<noteq> length b then Inl ValueError
      else Inr (map (\<lambda>(p, q). p - q) (zip a b)))"

text \<open>\<^verbatim>\<open>np.mean(a)\<close>; the mean of an empty array is NaN.\<close>

definition np_mean :: "real list \<Rightarrow> error + real" where
  "np_mean a = (if a = [] then Inl NonFinite else Inr (sum_list a / real (length a)))"

text \<open>\<^verbatim>\<open>a[::k] = f(a[::k])\<close>: the elements at the indices 0, k, 2k, ... are replaced.\<close>

definition stride_map :: "nat \<Rightarrow> ('a \<Rightarrow> 'a) \<Rightarrow> 'a list \<Rightarrow> 'a list" where
  "stride_map k f a = map (\<lambda>i. if i mod k = 0 then f (a ! i) else a ! i) [0..<length a]"

subsection \<open>scale_bounds\<close>

text \<open>
  \<^verbatim>\<open>b = deepcopy(bounds); for j in b[::npars_pc]: for k in (0, 1): if j[k] is not None:
  j[k] /= scale_factor; return b\<close>. The copy is what is changed and returned; the caller's
  list stays as it is. \<^verbatim>\<open>deepcopy(None)\<close> is \<^verbatim>\<open>None\<close>, and \<^verbatim>\<open>None[::npars_pc]\<close> raises
  TypeError.
\<close>

definition scale_bound :: "real \<Rightarrow> bound \<Rightarrow> bound" where
  "scale_bound scale_factor j =
     (map_option (\<lambda>b. b / scale_factor) (fst j), map_option (\<lambda>b. b / scale_factor) (snd j))"

definition scale_bounds :: "bound list option \<Rightarrow> real \<Rightarrow> nat \<Rightarrow> error + bound list" where
  "scale_bounds bounds scale_factor npars_pc =
     (case bounds of
        None \<Rightarrow> Inl TypeError
      | Some b \<Rightarrow> Inr (stride_map npars_pc (scale_bound scale_factor) b))"

subsection \<open>Spectrum.linefit\<close>

text \<open>
  The objective \<^verbatim>\<open>res(x)\<close> defined inside \<^verbatim>\<open>linefit\<close>:
  \<^verbatim>\<open>m = fit_func(self.fitwl, x); a = w * (s - m) ** 2; b = a / v; rms = np.sqrt(np.sum(b))\<close>.
  It closes over \<^verbatim>\<open>fit_func\<close>, \<^verbatim>\<open>self.fitwl\<close>, \<^verbatim>\<open>w\<close>, \<^verbatim>\<open>s\<close> and \<^verbatim>\<open>v\<close>, which are
  its first five arguments here.
\<close>

definition res ::
  "(real list \<Rightarrow> real list \<Rightarrow> real list) \<Rightarrow> real list \<Rightarrow> real list \<Rightarrow> real list \<Rightarrow>
   real list \<Rightarrow> real list \<Rightarrow> real" where
  "res f fwl w s v xs =
     (let m = f fwl xs
      in sqrt (sum_list (map (\<lambda>i. w ! i * (s ! i - m ! i)\<^sup>2 / v ! i) [0..<length s])))"

text \<open>The choice of the profile by name; an unknown name raises NameError.\<close>

definition profile_of :: "string \<Rightarrow> error + profile" where
  "profile_of function_name =
     (if function_name = ''gaussian'' then Inr Gauss
      else if function_name = ''gauss_hermite'' then Inr GaussHermite
      else Inl NameError)"

definition npars_pc_of :: "profile \<Rightarrow> nat" where
  "npars_pc_of prof = (case prof of Gauss \<Rightarrow> 3 | GaussHermite \<Rightarrow> 5)"

definition parnames_of :: "profile \<Rightarrow> string list" where
  "parnames_of prof =
     (case prof of
        Gauss \<Rightarrow> [''A'', ''wl'', ''s'']
      | GaussHermite \<Rightarrow> [''A'', ''wl'', ''s'', ''h3'', ''h4''])"

definition profile_fun :: "env \<Rightarrow> profile \<Rightarrow> real list \<Rightarrow> real list \<Rightarrow> real list" where
  "profile_fun env prof = (case prof of Gauss \<Rightarrow> gauss env | GaussHermite \<Rightarrow> gausshermite env)"

text \<open>
  \<^verbatim>\<open>fw\<close>: all true over \<^verbatim>\<open>self.data\<close> when no window is given, else the pixels whose
  \<^verbatim>\<open>self.wl\<close> lies strictly inside the window.
\<close>

definition fitting_mask :: "Spectrum \<Rightarrow> (real \<times> real) option \<Rightarrow> error + bool list" where
  "fitting_mask self fitting_window =
     (case fitting_window of
        None \<Rightarrow> ebind (getattr (data self)) (\<lambda>d. Inr (map (\<lambda>_. True) d))
      | Some fwin \<Rightarrow>
          ebind (getattr (wl self)) (\<lambda>l. Inr (map (\<lambda>a. fst fwin < a \<and> a < snd fwin) l)))"

definition default_copts :: pydict where
  "default_copts =
     [(''niterate'', CNum 5), (''degr'', CNum 4), (''upper_threshold'', CNum 2),
      (''lower_threshold'', CNum 2)]"

text \<open>\<^verbatim>\<open>np.sum(self.flags) > 0.8 * self.flags.size\<close>, for boolean flags.\<close>

definition too_many_flagged :: "bool list \<Rightarrow> bool" where
  "too_many_flagged fl \<longleftrightarrow> real (length (filter (\<lambda>b. b) fl)) > (8 / 10) * real (length fl)"

text \<open>
  Lines 203 to 231, from \<^verbatim>\<open>valid_pixels = (self.flags == 0) & fw\<close> to
  \<^verbatim>\<open>v = self.variance[valid_pixels]\<close>: the selection of the valid pixels, the weights, the
  continuum (the attribute \<^verbatim>\<open>self.cont\<close> when it is set, else \<^verbatim>\<open>st.continuum\<close>) and the
  continuum-subtracted signal \<^verbatim>\<open>s = data - cont\<close>.
\<close>

record selection =
  sel_self :: Spectrum
  sel_wl :: "real list"
  sel_w :: "real list"
  sel_cont :: "real list"
  sel_s :: "real list"
  sel_v :: "real list"

definition linefit_select ::
  "env \<Rightarrow> Spectrum \<Rightarrow> bool list \<Rightarrow> bool list \<Rightarrow> pydict \<Rightarrow> real list option \<Rightarrow>
   error + selection" where
  "linefit_select env self fw fl copts' weights =
     ebind (np_and (map Not fl) fw) (\<lambda>valid_pixels.
     ebind (getattr (restwl self)) (\<lambda>rw.
     ebind (mask_index rw valid_pixels) (\<lambda>wl'.
     ebind (getattr (data self)) (\<lambda>d.
     ebind (mask_index d valid_pixels) (\<lambda>data'.
     let w = (case weights of None \<Rightarrow> map (\<lambda>_. 1) data' | Some ws \<Rightarrow> ws);
         self2 = self\<lparr>fitcont := Some (map (\<lambda>_. 0) data'), fitwl := Some wl',
                      fitspec := Some (map (\<lambda>_. 0) data'),
                      resultspec := Some (map (\<lambda>_. 0) data')\<rparr>
     in
     ebind (case cont self2 of Some c \<Rightarrow> Inr c | None \<Rightarrow> continuum env wl' data' copts')
       (\<lambda>cont'.
     let self3 = self2\<lparr>fitcont := Some cont'\<rparr> in
     ebind (np_sub data' cont') (\<lambda>s.
     ebind (getattr (variance self3)) (\<lambda>var.
     ebind (mask_index var valid_pixels) (\<lambda>v.
     Inr \<lparr>sel_self = self3, sel_wl = wl', sel_w = w, sel_cont = cont', sel_s = s,
          sel_v = v\<rparr>)))))))))"

text \<open>
  Lines 237 to 246: \<^verbatim>\<open>scale_factor = np.mean(s)\<close>; a bare \<^verbatim>\<open>return\<close> (the result \<open>None\<close>
  here) when it is not positive; else \<^verbatim>\<open>s /= scale_factor\<close>,
  \<^verbatim>\<open>if not np.all(v == 1.): v /= scale_factor ** 2\<close>, \<^verbatim>\<open>p0[::npars_pc] /= scale_factor\<close> and
  \<^verbatim>\<open>sbounds = scale_bounds(bounds, scale_factor, npars_pc)\<close>. These are the values the
  minimizer works on.
\<close>

record scaled =
  sc_scale_factor :: real
  sc_s :: "real list"
  sc_v :: "real list"
  sc_p0 :: "real list"
  sc_sbounds :: "bound list"

definition linefit_scale ::
  "real list \<Rightarrow> real list \<Rightarrow> real list \<Rightarrow> bound list option \<Rightarrow> nat \<Rightarrow> error + scaled option" where
  "linefit_scale s v p0 bounds npars_pc =
     ebind (np_mean s) (\<lambda>scale_factor.
     if scale_factor \<le> 0 then Inr None
     else
       let s1 = map (\<lambda>a. a / scale_factor) s;
           v1 = (if \<not> list_all (\<lambda>a. a = 1) v then map (\<lambda>a. a / scale_factor\<^sup>2) v else v);
           p01 = stride_map npars_pc (\<lambda>a. a / scale_factor) p0
       in
       ebind (scale_bounds bounds scale_factor npars_pc) (\<lambda>sbounds.
       Inr (Some \<lparr>sc_scale_factor = scale_factor, sc_s = s1, sc_v = v1, sc_p0 = p01,
                 sc_sbounds = sbounds\<rparr>)))"

text \<open>
  Lines 251 to 277, with \<^verbatim>\<open>writefits\<close> false: the call of the minimizer on \<^verbatim>\<open>res\<close>, the
  reduced chi square \<^verbatim>\<open>red_chi2 = chi2 / nu\<close> with \<^verbatim>\<open>chi2 = res(r['x'])\<close>, the solution
  \<^verbatim>\<open>p = np.append(r['x'], red_chi2); p[::npars_pc] *= scale_factor\<close>, and the attributes
  \<^verbatim>\<open>fitspec\<close>, \<^verbatim>\<open>resultspec\<close>, \<^verbatim>\<open>em_model\<close> and \<^verbatim>\<open>fit_status\<close>.

  \<^item> The objective divides by \<^verbatim>\<open>v\<close> and takes a square root: the model follows the runs
    with positive variances and non-negative weights, and stops with \<open>NonFinite\<close>
    before the minimizer otherwise. Weights of another shape than the selected data
    raise ValueError at the first evaluation of the objective.
  \<^item> \<^verbatim>\<open>len(s)/inst_disp\<close> raises ZeroDivisionError for \<^verbatim>\<open>inst_disp = 0\<close>; \<^verbatim>\<open>chi2 / nu\<close>
    with \<^verbatim>\<open>nu = 0\<close> is a numpy division by zero.
\<close>

definition linefit_minimize ::
  "env \<Rightarrow> profile \<Rightarrow> nat \<Rightarrow> selection \<Rightarrow> scaled \<Rightarrow> constraint list \<Rightarrow> real \<Rightarrow> string \<Rightarrow> pydict \<Rightarrow>
   error + (real list \<times> Spectrum)" where
  "linefit_minimize env prof npars sl sc constraints inst_disp min_method minopts =
     (let npars_pc = npars_pc_of prof; f = profile_fun env prof;
          scale_factor = sc_scale_factor sc; s = sc_s sc; v = sc_v sc; w = sel_w sl;
          cont' = sel_cont sl
      in
      if length w \<noteq> length s then Inl ValueError
      else if \<not> (list_all (\<lambda>a. 0 < a) v \<and> list_all (\<lambda>a. 0 \<le> a) w) then Inl NonFinite
      else
        ebind (minimize env (res f (sel_wl sl) w s v) (sc_p0 sc) min_method (sc_sbounds sc)
                 constraints minopts) (\<lambda>r.
        let chi2 = res f (sel_wl sl) w s v (r_x r) in
        if inst_disp = 0 then Inl ZeroDivisionError
        else
          let nu = real (length s) / inst_disp - real npars - real (length constraints) - 1
          in
          if nu = 0 then Inl NonFinite
          else
            let red_chi2 = chi2 / nu;
                p = r_x r @ [red_chi2];
                sol = stride_map npars_pc (\<lambda>a. a * scale_factor) p;
                self4 = (sel_self sl)\<lparr>
                  fitspec := Some (map (\<lambda>(a, c). a * scale_factor + c) (zip s cont')),
                  resultspec :=
                    Some (map (\<lambda>(c, m). c + m * scale_factor)
                            (zip cont' (f (sel_wl sl) (r_x r)))),
                  em_model := Some sol,
                  fit_status := Some (r_status r)\<rparr>
            in Inr (sol, self4)))"

text \<open>
  What a call leaves behind when it returns: the returned value (\<open>None\<close> for a bare
  \<^verbatim>\<open>return\<close>), the object \<^verbatim>\<open>self\<close>, and the caller's objects \<^verbatim>\<open>p0\<close>, \<^verbatim>\<open>bounds\<close> and
  \<^verbatim>\<open>copts\<close> as they are after the call (\<^verbatim>\<open>copts\<close> only when the caller passed a
  dictionary). \<^verbatim>\<open>p0\<close> is a numpy array, which \<^verbatim>\<open>p0[::npars_pc] /= scale_factor\<close> changes in
  place; \<^verbatim>\<open>copts.update(dict(returns='function'))\<close> changes the caller's dictionary;
  \<^verbatim>\<open>scale_bounds\<close> works on a deep copy of \<^verbatim>\<open>bounds\<close>.
\<close>

record outcome =
  ret :: "real list option"
  self_after :: Spectrum
  p0_after :: "real list"
  bounds_after :: "bound list option"
  copts_after :: "pydict option"

text \<open>
  \<^verbatim>\<open>Spectrum.linefit(self, p0, function, fitting_window, ..., constraints, bounds, inst_disp,
  min_method, minopts, copts, weights)\<close>. The parameter \<^verbatim>\<open>variance\<close> of the method is never
  read (the variance used is \<^verbatim>\<open>self.variance\<close>), and \<^verbatim>\<open>writefits\<close> is false. A caller who
  leaves an argument out passes its default: \<open>''gaussian''\<close>, \<open>None\<close>, \<open>[]\<close>, \<open>None\<close>,
  \<open>1\<close>, \<open>''SLSQP''\<close>, \<open>[(''eps'', CNum (1 / 1000))]\<close>, \<open>None\<close>, \<open>None\<close>.

  \<^verbatim>\<open>nan_solution\<close> is only ever bound to the local name \<^verbatim>\<open>p\<close>, which is not read
  afterwards, so it is no part of the model. With more than 80 percent of the pixels
  flagged the method sets \<^verbatim>\<open>self.fit_status = 98\<close> and returns with a bare \<^verbatim>\<open>return\<close>;
  with \<^verbatim>\<open>scale_factor <= 0\<close> it binds 97 to the local name \<^verbatim>\<open>fit_status\<close> and returns
  with a bare \<^verbatim>\<open>return\<close>.
\<close>

definition linefit ::
  "env \<Rightarrow> Spectrum \<Rightarrow> real list \<Rightarrow> string \<Rightarrow> (real \<times> real) option \<Rightarrow> constraint list \<Rightarrow>
   bound list option \<Rightarrow> real \<Rightarrow> string \<Rightarrow> pydict \<Rightarrow> pydict option \<Rightarrow> real list option \<Rightarrow>
   error + outcome" where
  "linefit env self p0 function_name fitting_window constraints bounds inst_disp min_method
     minopts copts weights =
     (let npars = length p0 in
      ebind (profile_of function_name) (\<lambda>prof.
      let npars_pc = npars_pc_of prof;
          self1 = self\<lparr>fit_func := Some prof, parnames := Some (parnames_of prof)\<rparr>
      in
      ebind (fitting_mask self1 fitting_window) (\<lambda>fw.
      let copts' = AList.update ''returns'' (CStr ''function'')
                     (case copts of None \<Rightarrow> default_copts | Some c \<Rightarrow> c);
          caller_copts = map_option (\<lambda>_. copts') copts
      in
      ebind (getattr (flags self1)) (\<lambda>fl.
      if too_many_flagged fl
      then Inr \<lparr>ret = None, self_after = self1\<lparr>fit_status := Some 98\<rparr>, p0_after = p0,
                bounds_after = bounds, copts_after = caller_copts\<rparr>
      else
        ebind (linefit_select env self1 fw fl copts' weights) (\<lambda>sl.
        ebind (linefit_scale (sel_s sl) (sel_v sl) p0 bounds npars_pc) (\<lambda>scaling.
        case scaling of
          None \<Rightarrow>
            Inr \<lparr>ret = None, self_after = sel_self sl, p0_after = p0, bounds_after = bounds,
                 copts_after = caller_copts\<rparr>
        | Some sc \<Rightarrow>
            ebind (linefit_minimize env prof npars sl sc constraints inst_disp min_method
                     minopts) (\<lambda>(sol, self4).
            Inr \<lparr>ret = Some sol, self_after = self4, p0_after = sc_p0 sc,
                 bounds_after = bounds, copts_after = caller_copts\<rparr>)))))))"

subsection \<open>Example inputs\<close>

text \<open>
  A spectrum of ten pixels from 4996 to 5005 Angstrom, with an emission line on a flat
  continuum of 1, variance 1, and no pixel flagged; the same spectrum with every pixel
  flagged; and a spectrum with an absorption line, whose flux lies below a continuum
  of 1. \<open>line_signal\<close> is the emission line without its continuum, divided by its
  mean 3/2.
\<close>

definition wl10 :: "real list" where
  "wl10 = [4996, 4997, 4998, 4999, 5000, 5001, 5002, 5003, 5004, 5005]"

definition line_spectrum :: Spectrum where
  "line_spectrum = Spectrum_new\<lparr>
     data := Some [1, 1, 1, 5, 8, 5, 1, 1, 1, 1],
     variance := Some [1, 1, 1, 1, 1, 1, 1, 1, 1, 1],
     flags := Some [False, False, False, False, False, False, False, False, False, False],
     wl := Some wl10, restwl := Some wl10\<rparr>"

definition flagged_spectrum :: Spectrum where
  "flagged_spectrum = line_spectrum\<lparr>
     flags := Some [True, True, True, True, True, True, True, True, True, True]\<rparr>"

definition absorption_spectrum :: Spectrum where
  "absorption_spectrum = line_spectrum\<lparr>
     data := Some [1, 1, 1, 1 / 2, 1 / 4, 1 / 2, 1, 1, 1, 1]\<rparr>"

text \<open>
  The spectrum of the end-to-end scenario on the same ten pixels: a continuum of 1 plus a
  gaussian of amplitude 5, centre 5000 and width 2, with variance 1 and no flagged pixel.
\<close>

definition gaussian_data :: "real list" where
  "gaussian_data = map (\<lambda>l. 1 + 5 * exp (- (l - 5000)\<^sup>2 / (2 * 2\<^sup>2))) wl10"

definition gaussian_spectrum :: Spectrum where
  "gaussian_spectrum = line_spectrum\<lparr>data := Some gaussian_data\<rparr>"

definition flat10 :: "real list" where
  "flat10 = [1, 1, 1, 1, 1, 1, 1, 1, 1, 1]"

definition line_signal :: "real list" where
  "line_signal = [0, 0, 0, 8 / 3, 14 / 3, 8 / 3, 0, 0, 0, 0]"

definition no_bounds3 :: "bound list" where
  "no_bounds3 = [(None, None), (None, None), (None, None)]"

definition default_minopts :: pydict where
  "default_minopts = [(''eps'', CNum (1 / 1000))]"

definition returns_function :: pydict where
  "returns_function = AList.update ''returns'' (CStr ''function'') default_copts"

text \<open>
  An environment for the examples: a single gaussian \<open>A * exp (- (l - mu)\<^sup>2 / (2 * sigma\<^sup>2))\<close>
  as the profile, a flat continuum of 1, and a minimizer that stops at once, returning its
  initial guess with status 0. The theorems hold for every environment; this one shows
  that their hypotheses can be met.
\<close>

definition example_env :: env where
  "example_env =
     \<lparr>gauss = (\<lambda>ls xs. map (\<lambda>l. xs ! 0 * exp (- (l - xs ! 1)\<^sup>2 / (2 * (xs ! 2)\<^sup>2))) ls),
      gausshermite = (\<lambda>ls xs. map (\<lambda>l. 0) ls),
      continuum = (\<lambda>ls d c. Inr (map (\<lambda>l. 1) ls)),
      minimize = (\<lambda>f x0 meth b cs opts. Inr \<lparr>r_x = x0, r_status = 0\<rparr>)\<rparr>"

section \<open>Cube.linefit\<close>

text \<open>
  The model covers an unbinned cube (\<^verbatim>\<open>self.binned\<close> false in the loop), with
  \<^verbatim>\<open>individual_spec\<close> \<^verbatim>\<open>None\<close>, \<^verbatim>\<open>verbose\<close> and \<^verbatim>\<open>write_fits\<close> false, a spiral centre that is
  \<^verbatim>\<open>None\<close> or a pair of numbers, and keyword arguments without \<^verbatim>\<open>variance\<close>, \<^verbatim>\<open>weights\<close>
  and \<^verbatim>\<open>flags\<close> (so that \<^verbatim>\<open>_arg2cube\<close> is not called).

  A cube-shaped array is a function from the spatial coordinate (row, column) to the
  values along the first axis; \<^verbatim>\<open>cube_shape\<close> is the spatial shape.
\<close>

record Cube =
  cube_shape :: "nat \<times> nat"
  cube_rest_wavelength :: "real list"
  cube_data :: "coord \<Rightarrow> real list"
  cube_variance :: "coord \<Rightarrow> real list"
  cube_flags :: "coord \<Rightarrow> bool list"
  cube_stellar :: "coord \<Rightarrow> real list"
  cube_spec_indices :: "coord list"
  cube_binned :: bool
  cube_fit_status :: "coord \<Rightarrow> int"
  cube_fitcont :: "coord \<Rightarrow> real list"
  cube_fitspec :: "coord \<Rightarrow> real list"
  cube_fitstellar :: "coord \<Rightarrow> real list"
  cube_resultspec :: "coord \<Rightarrow> real list"
  cube_eqw_model :: "(coord \<Rightarrow> real list) option"
  cube_eqw_direct :: "(coord \<Rightarrow> real list) option"
  cube_initial_guess :: "coord \<Rightarrow> real list"
  cube_fitbounds :: "coord \<Rightarrow> real option list"
  cube_feature_wl :: "real list option"
  cube_fit_y0 :: "int option"
  cube_fit_x0 :: "int option"
  cube_em_model :: "(coord \<Rightarrow> real list) option"

text \<open>
  The initial guess \<^verbatim>\<open>p0\<close> of the loop is a one-dimensional array, or, after
  \<^verbatim>\<open>p0 = deepcopy(nearsol.transpose())\<close>, a two-dimensional one. \<open>ravel\<close> lists its values.
\<close>

datatype guess = Vec "real list" | Mat "real list list"


text \<open>
  The dictionary \<^verbatim>\<open>**kwargs\<close>: one optional entry for each key the two methods read, and
  \<open>kw_other\<close> for the keys present that are no parameter of \<^verbatim>\<open>Spectrum.linefit\<close>.
  \<open>kw_feature_wl\<close> is the key \<^verbatim>\<open>'feature_wl'\<close>, which \<^verbatim>\<open>Cube.linefit\<close> reads after every fit
  and which is no parameter of \<^verbatim>\<open>Spectrum.linefit\<close>.
\<close>

record kwargs =
  kw_function :: "string option"
  kw_fitting_window :: "(real \<times> real) option"
  kw_constraints :: "constraint list option"
  kw_bounds :: "bound list option"
  kw_inst_disp :: "real option"
  kw_min_method :: "string option"
  kw_minopts :: "pydict option"
  kw_copts :: "pydict option"
  kw_feature_wl :: "real list option"
  kw_other :: "string list"

text \<open>
  The environment of \<^verbatim>\<open>Cube.linefit\<close>: that of \<^verbatim>\<open>Spectrum.linefit\<close>, and
  \<^verbatim>\<open>cubetools.bound_updater(p0, bound_range, bounds=original_bounds)\<close>, which is defined
  outside the two modules.
\<close>

record cenv =
  spectrum_env :: env
  bound_updater :: "real list \<Rightarrow> real \<Rightarrow> bound list option \<Rightarrow> bound list"

text \<open>The local variables of the loop.\<close>

record loop_state =
  ls_cube :: Cube
  ls_sol :: "coord \<Rightarrow> real list"
  ls_p0 :: guess
  ls_kwargs :: kwargs
  ls_is_first_spec :: bool
  ls_spec :: "Spectrum option"

text \<open>\<^verbatim>\<open>np.indices(shape)\<close>, as the list of the coordinates in row-major order.\<close>

definition grid_coords :: "nat \<times> nat \<Rightarrow> coord list" where
  "grid_coords shape =
     concat (map (\<lambda>r. map (\<lambda>c. (int r, int c)) [0..<snd shape]) [0..<fst shape])"

text \<open>
  \<^verbatim>\<open>radsol = np.sqrt((yy - i) ** 2 + (xx - j) ** 2)\<close> at the coordinate \<open>q\<close>, for the
  current coordinate \<open>h = (i, j)\<close>.
\<close>

definition radsol :: "coord \<Rightarrow> coord \<Rightarrow> real" where
  "radsol h q = sqrt ((real_of_int (fst q) - real_of_int (fst h))\<^sup>2
                     + (real_of_int (snd q) - real_of_int (snd h))\<^sup>2)"

text \<open>
  \<^verbatim>\<open>nearsol = sol[:-1, (radsol < refit_radius) & (self.fit_status == 0)]\<close>, transposed: the
  list, in row-major order of the coordinates, of the solutions without their last
  element at the coordinates inside the radius whose status is 0.
\<close>

definition nearsol_T ::
  "Cube \<Rightarrow> (coord \<Rightarrow> real list) \<Rightarrow> coord \<Rightarrow> real \<Rightarrow> real list list" where
  "nearsol_T cube sol h refit_radius =
     map (\<lambda>q. butlast (sol q))
       (filter (\<lambda>q. radsol h q < refit_radius \<and> cube_fit_status cube q = 0)
          (grid_coords (cube_shape cube)))"

text \<open>\<^verbatim>\<open>np.average(a, 0)\<close> of a two-dimensional array with rows of length \<open>n\<close>.\<close>

definition average0 :: "nat \<Rightarrow> real list list \<Rightarrow> real list" where
  "average0 n rows =
     map (\<lambda>m. sum_list (map (\<lambda>v. v ! m) rows) / real (length rows)) [0..<n]"

text \<open>\<^verbatim>\<open>np.any(a)\<close>: some element is not zero.\<close>

definition np_any :: "real list list \<Rightarrow> bool" where
  "np_any rows \<longleftrightarrow> list_ex (\<lambda>v. list_ex (\<lambda>a. a \<noteq> 0) v) rows"

text \<open>
  The body of \<^verbatim>\<open>if refit and not is_first_spec:\<close>. \<open>npars\<close> is the local variable of that
  name, the length of the guess \<^verbatim>\<open>Cube.linefit\<close> was called with; \<^verbatim>\<open>sol\<close> has
  \<open>npars + 1\<close> planes, so the shape of \<^verbatim>\<open>nearsol\<close> is (\<open>npars\<close>, number of matches). The
  result is the new \<^verbatim>\<open>p0\<close> and the new \<^verbatim>\<open>kwargs\<close>.
\<close>

definition refit_guess ::
  "cenv \<Rightarrow> Cube \<Rightarrow> nat \<Rightarrow> (coord \<Rightarrow> real list) \<Rightarrow> coord \<Rightarrow> real \<Rightarrow> bool \<Rightarrow> real \<Rightarrow>
   bound list option \<Rightarrow> guess \<Rightarrow> kwargs \<Rightarrow> guess \<times> kwargs" where
  "refit_guess ce cube npars sol h refit_radius update_bounds bound_range original_bounds p0 kw =
     (let nearsol = nearsol_T cube sol h refit_radius in
      if npars = 5 \<and> length nearsol = 1 then (Mat nearsol, kw)
      else if np_any nearsol then
        (let p0' = average0 npars nearsol
         in (Vec p0',
             if update_bounds
             then kw\<lparr>kw_bounds := Some (bound_updater ce p0' bound_range original_bounds)\<rparr>
             else kw))
      else (p0, kw))"

text \<open>
  \<^verbatim>\<open>spec = onedspec.Spectrum()\<close> and the five assignments that follow it, for the
  coordinate \<open>h\<close>.
\<close>

definition spec_at :: "Cube \<Rightarrow> coord \<Rightarrow> Spectrum" where
  "spec_at cube h = Spectrum_new\<lparr>
     rest_wavelength := Some (cube_rest_wavelength cube),
     data := Some (cube_data cube h),
     variance := Some (cube_variance cube h),
     flags := Some (cube_flags cube h),
     stellar := Some (cube_stellar cube h)\<rparr>"

text \<open>
  \<^verbatim>\<open>spec.linefit(p0, **kwargs)\<close>. Python binds the arguments before the body runs: a key
  that is no parameter of the method raises TypeError. The parameters that are left out
  take the defaults of the signature.
\<close>

definition call_linefit :: "cenv \<Rightarrow> Spectrum \<Rightarrow> guess \<Rightarrow> kwargs \<Rightarrow> error + outcome" where
  "call_linefit ce spec p0 kw =
     (if kw_feature_wl kw \<noteq> None \<or> kw_other kw \<noteq> [] then Inl TypeError
      else case p0 of
        Mat m \<Rightarrow> Inl Unmodelled
      | Vec v \<Rightarrow>
          linefit (spectrum_env ce) spec v
            (case kw_function kw of None \<Rightarrow> ''gaussian'' | Some f \<Rightarrow> f)
            (kw_fitting_window kw)
            (case kw_constraints kw of None \<Rightarrow> [] | Some c \<Rightarrow> c)
            (kw_bounds kw)
            (case kw_inst_disp kw of None \<Rightarrow> 1 | Some d \<Rightarrow> d)
            (case kw_min_method kw of None \<Rightarrow> ''SLSQP'' | Some m \<Rightarrow> m)
            (case kw_minopts kw of None \<Rightarrow> default_minopts | Some opts \<Rightarrow> opts)
            (kw_copts kw)
            None)"

text \<open>\<^verbatim>\<open>a[:, i, j] = v\<close>: the value must have the length of the first axis.\<close>

definition put_column :: "nat \<Rightarrow> 'a list \<Rightarrow> error + 'a list" where
  "put_column n v = (if length v \<noteq> n then Inl ValueError else Inr v)"

text \<open>
  The unbinned branch that stores the results of one fit at the coordinate \<open>h\<close>, from
  \<^verbatim>\<open>sol[:, i, j] = spec.em_model\<close> to the assignment of \<^verbatim>\<open>self.fitbounds[:, i, j]\<close>. Every
  right-hand side reads an attribute of \<^verbatim>\<open>spec\<close>. \<open>npars\<close> and \<open>fit_npixels\<close> are the local
  variables of these names.
\<close>

definition cube_scatter ::
  "nat \<Rightarrow> nat \<Rightarrow> Cube \<Rightarrow> (coord \<Rightarrow> real list) \<Rightarrow> Spectrum \<Rightarrow> coord \<Rightarrow>
   error + (Cube \<times> (coord \<Rightarrow> real list))" where
  "cube_scatter npars fit_npixels cube sol spec h =
     ebind (getattr (em_model spec)) (\<lambda>a1. ebind (put_column (npars + 1) a1) (\<lambda>v1.
     ebind (getattr (fitcont spec)) (\<lambda>a2. ebind (put_column fit_npixels a2) (\<lambda>v2.
     ebind (getattr (fitspec spec)) (\<lambda>a3. ebind (put_column fit_npixels a3) (\<lambda>v3.
     ebind (getattr (fitstellar spec)) (\<lambda>a4. ebind (put_column fit_npixels a4) (\<lambda>v4.
     ebind (getattr (resultspec spec)) (\<lambda>a5. ebind (put_column fit_npixels a5) (\<lambda>v5.
     ebind (getattr (fit_status spec)) (\<lambda>v6.
     ebind (getattr (cube_eqw_model cube)) (\<lambda>em.
     ebind (getattr (eqw_model spec)) (\<lambda>a7. ebind (put_column (length (em h)) a7) (\<lambda>v7.
     ebind (getattr (cube_eqw_direct cube)) (\<lambda>ed.
     ebind (getattr (eqw_direct spec)) (\<lambda>a8. ebind (put_column (length (ed h)) a8) (\<lambda>v8.
     ebind (getattr (initial_guess spec)) (\<lambda>a9. ebind (put_column npars a9) (\<lambda>v9.
     ebind (getattr (fitbounds spec)) (\<lambda>a10.
     ebind (put_column (npars * 2) (concat (map (\<lambda>b. [fst b, snd b]) a10))) (\<lambda>v10.
     Inr (cube\<lparr>cube_fitcont := (cube_fitcont cube)(h := v2),
               cube_fitspec := (cube_fitspec cube)(h := v3),
               cube_fitstellar := (cube_fitstellar cube)(h := v4),
               cube_resultspec := (cube_resultspec cube)(h := v5),
               cube_fit_status := (cube_fit_status cube)(h := v6),
               cube_eqw_model := Some (em(h := v7)),
               cube_eqw_direct := Some (ed(h := v8)),
               cube_initial_guess := (cube_initial_guess cube)(h := v9),
               cube_fitbounds := (cube_fitbounds cube)(h := v10)\<rparr>,
          sol(h := v1)))))))))))))))))))))))"

text \<open>
  One turn of \<^verbatim>\<open>for h in iterator:\<close>. After the fit, \<^verbatim>\<open>self.feature_wl = kwargs['feature_wl']\<close>
  raises KeyError when the key is missing; \<^verbatim>\<open>spec.fit_status\<close> is read only while
  \<^verbatim>\<open>is_first_spec\<close> holds; \<^verbatim>\<open>spec.component_names\<close> is read when \<^verbatim>\<open>self.eqw_model\<close> is
  \<^verbatim>\<open>None\<close>. The array \<^verbatim>\<open>p0\<close> is the one \<^verbatim>\<open>spec.linefit\<close> has worked on.
\<close>

definition cube_step ::
  "cenv \<Rightarrow> nat \<Rightarrow> nat \<Rightarrow> bool \<Rightarrow> bool \<Rightarrow> real \<Rightarrow> real \<Rightarrow> bound list option \<Rightarrow> loop_state \<Rightarrow> coord \<Rightarrow>
   error + loop_state" where
  "cube_step ce npars fit_npixels refit update_bounds bound_range refit_radius original_bounds
     st h =
     (let cube = ls_cube st;
          spec = spec_at cube h;
          pk = (if refit \<and> \<not> ls_is_first_spec st
                then refit_guess ce cube npars (ls_sol st) h refit_radius update_bounds
                       bound_range original_bounds (ls_p0 st) (ls_kwargs st)
                else (ls_p0 st, ls_kwargs st));
          p0 = fst pk; kw = snd pk
      in
      ebind (call_linefit ce spec p0 kw) (\<lambda>out.
      let spec' = self_after out in
      ebind (case kw_feature_wl kw of None \<Rightarrow> Inl KeyError | Some f \<Rightarrow> Inr f) (\<lambda>feature_wl.
      let cube1 = cube\<lparr>cube_feature_wl := Some feature_wl\<rparr> in
      ebind (if ls_is_first_spec st
             then ebind (getattr (fit_status spec')) (\<lambda>fs. Inr (fs \<noteq> 0))
             else Inr False) (\<lambda>first'.
      ebind (if cube_eqw_model cube1 = None
             then ebind (getattr (component_names spec')) (\<lambda>names.
                    Inr (cube1\<lparr>cube_eqw_model := Some (\<lambda>q. replicate (length names) 0),
                               cube_eqw_direct := Some (\<lambda>q. replicate (length names) 0)\<rparr>))
             else Inr cube1) (\<lambda>cube2.
      ebind (cube_scatter npars fit_npixels cube2 (ls_sol st) spec' h) (\<lambda>(cube3, sol').
      Inr \<lparr>ls_cube = cube3, ls_sol = sol', ls_p0 = Vec (p0_after out), ls_kwargs = kw,
           ls_is_first_spec = first', ls_spec = Some spec'\<rparr>))))))"

text \<open>The loop: the turns in the order of the list, up to the first exception.\<close>

fun cube_loop ::
  "cenv \<Rightarrow> nat \<Rightarrow> nat \<Rightarrow> bool \<Rightarrow> bool \<Rightarrow> real \<Rightarrow> real \<Rightarrow> bound list option \<Rightarrow> loop_state \<Rightarrow>
   coord list \<Rightarrow> error + loop_state" where
  "cube_loop ce npars fit_npixels refit update_bounds bound_range refit_radius original_bounds
     st [] = Inr st"
| "cube_loop ce npars fit_npixels refit update_bounds bound_range refit_radius original_bounds
     st (h # hs) =
     ebind (cube_step ce npars fit_npixels refit update_bounds bound_range refit_radius
              original_bounds st h)
       (\<lambda>st'. cube_loop ce npars fit_npixels refit update_bounds bound_range refit_radius
                 original_bounds st' hs)"

text \<open>
  \<^verbatim>\<open>Cube.linefit(self, p0, refit, update_bounds, bound_range, spiral_loop, spiral_center,
  refit_radius, **kwargs)\<close>: the fitting window over \<^verbatim>\<open>self.rest_wavelength\<close>, the assertion
  that some flux in the window is not zero, the new result arrays, the list of the
  coordinates (spiralled when \<^verbatim>\<open>spiral_loop\<close> holds), \<^verbatim>\<open>self.fit_y0, self.fit_x0 = xy[0]\<close>,
  which raises IndexError on an empty array and comes before the test
  \<^verbatim>\<open>len(iterator) == 0\<close>, the loop, and the attributes of the last \<^verbatim>\<open>spec\<close> that are read
  after the loop. The result is the array \<^verbatim>\<open>sol\<close> and the cube.
\<close>

definition Cube_linefit ::
  "cenv \<Rightarrow> Cube \<Rightarrow> real list \<Rightarrow> bool \<Rightarrow> bool \<Rightarrow> real \<Rightarrow> bool \<Rightarrow> (real \<times> real) option \<Rightarrow> real \<Rightarrow>
   kwargs \<Rightarrow> error + ((coord \<Rightarrow> real list) \<times> Cube)" where
  "Cube_linefit ce self p0 refit update_bounds bound_range spiral_loop spiral_center
     refit_radius kw =
     (let fw_mask = (case kw_fitting_window kw of
                       None \<Rightarrow> map (\<lambda>l. True) (cube_rest_wavelength self)
                     | Some fwin \<Rightarrow>
                         map (\<lambda>l. fst fwin < l \<and> l < snd fwin) (cube_rest_wavelength self));
          fit_npixels = length (filter (\<lambda>b. b) fw_mask)
      in
      if \<not> list_ex (\<lambda>q. list_ex (\<lambda>(a, b). b \<and> a \<noteq> 0) (zip (cube_data self q) fw_mask))
               (grid_coords (cube_shape self))
      then Inl AssertionError
      else
        let npars = length p0;
            cube0 = self\<lparr>cube_fit_status := (\<lambda>q. - 1),
                         cube_fitcont := (\<lambda>q. replicate fit_npixels 0),
                         cube_fitspec := (\<lambda>q. replicate fit_npixels 0),
                         cube_fitstellar := (\<lambda>q. replicate fit_npixels 0),
                         cube_resultspec := (\<lambda>q. replicate fit_npixels 0),
                         cube_initial_guess := (\<lambda>q. replicate npars 0),
                         cube_fitbounds := (\<lambda>q. replicate (npars * 2) (Some 0))\<rparr>;
            sol = (\<lambda>q. replicate (npars + 1) 0);
            original_bounds = kw_bounds kw
        in
        ebind (if spiral_loop
               then spiral (cube_binned self) (cube_spec_indices self) (cube_spec_indices self)
                      spiral_center
               else Inr (cube_spec_indices self)) (\<lambda>xy.
        case xy of
          [] \<Rightarrow> Inl IndexError
        | h0 # rest \<Rightarrow>
            let cube1 = cube0\<lparr>cube_fit_y0 := Some (fst h0), cube_fit_x0 := Some (snd h0)\<rparr> in
            ebind (cube_loop ce npars fit_npixels refit update_bounds bound_range refit_radius
                     original_bounds
                     \<lparr>ls_cube = cube1, ls_sol = sol, ls_p0 = Vec p0, ls_kwargs = kw,
                      ls_is_first_spec = True, ls_spec = None\<rparr> xy) (\<lambda>st.
            ebind (getattr (ls_spec st)) (\<lambda>spec.
            ebind (getattr (fitwl spec)) (\<lambda>w.
            ebind (getattr (fit_func spec)) (\<lambda>f.
            ebind (getattr (parnames spec)) (\<lambda>pn.
            ebind (getattr (component_names spec)) (\<lambda>cn.
            Inr (ls_sol st, (ls_cube st)\<lparr>cube_em_model := Some (ls_sol st)\<rparr>)))))))))"

subsection \<open>Example cubes\<close>

text \<open>
  A cube of the given spatial shape with the line spectrum at every spaxel, no spaxel
  masked, and nothing fitted yet; the keyword arguments that pass only unbounded bounds
  for three parameters.
\<close>

definition line_cube :: "nat \<times> nat \<Rightarrow> Cube" where
  "line_cube shape =
     \<lparr>cube_shape = shape,
      cube_rest_wavelength = wl10,
      cube_data = (\<lambda>q. [1, 1, 1, 5, 8, 5, 1, 1, 1, 1]),
      cube_variance = (\<lambda>q. flat10),
      cube_flags = (\<lambda>q. [False, False, False, False, False, False, False, False, False, False]),
      cube_stellar = (\<lambda>q. [0, 0, 0, 0, 0, 0, 0, 0, 0, 0]),
      cube_spec_indices = grid_coords shape,
      cube_binned = False,
      cube_fit_status = (\<lambda>q. - 1),
      cube_fitcont = (\<lambda>q. []),
      cube_fitspec = (\<lambda>q. []),
      cube_fitstellar = (\<lambda>q. []),
      cube_resultspec = (\<lambda>q. []),
      cube_eqw_model = None,
      cube_eqw_direct = None,
      cube_initial_guess = (\<lambda>q. []),
      cube_fitbounds = (\<lambda>q. []),
      cube_feature_wl = None,
      cube_fit_y0 = None,
      cube_fit_x0 = None,
      cube_em_model = None\<rparr>"

definition no_kwargs :: kwargs where
  "no_kwargs =
     \<lparr>kw_function = None, kw_fitting_window = None, kw_constraints = None, kw_bounds = None,
      kw_inst_disp = None, kw_min_method = None, kw_minopts = None, kw_copts = None,
      kw_feature_wl = None, kw_other = []\<rparr>"

definition bounds_kwargs :: kwargs where
  "bounds_kwargs = no_kwargs\<lparr>kw_bounds := Some no_bounds3\<rparr>"

text \<open>Two spaxels in a row, the first with every pixel flagged.\<close>

definition flagged_cube :: Cube where
  "flagged_cube = (line_cube (1, 2))\<lparr>
     cube_flags := (\<lambda>q. if q = (0, 0)
                        then [True, True, True, True, True, True, True, True, True, True]
                        else [False, False, False, False, False, False, False, False, False,
                              False])\<rparr>"






text \<open>
  The centre the traversal is taken around, in the words of the specification: the given
  centre (x0, y0), or else half the maximum column index and half the maximum row index.
\<close>

definition centre_used :: "(real \<times> real) option \<Rightarrow> coord list \<Rightarrow> real \<times> real" where
  "centre_used spiral_center cs =
     (case spiral_center of
        Some c \<Rightarrow> c
      | None \<Rightarrow> (real_of_int (Max (set (map snd cs))) / 2,
                 real_of_int (Max (set (map fst cs))) / 2))"

section \<open>Properties of Cube._spiral\<close>

lemma amax_nonempty: "as \<noteq> [] \<Longrightarrow> \<exists>m. amax as = Inr m"
  by (cases as) simp_all

lemma amax_Max: "as \<noteq> [] \<Longrightarrow> amax as = Inr (Max (set as))"
proof (cases as)
  case Nil
  assume "as \<noteq> []"
  with Nil show ?thesis by simp
next
  case (Cons a list)
  then show ?thesis using Max.set_eq_fold [of a list] by simp
qed


lemma hypot_pos:
  fixes x y :: real
  assumes "0 < x"
  shows "sqrt (x\<^sup>2 + y\<^sup>2) = x * sqrt (1 + (y / x)\<^sup>2)"
proof -
  have "x\<^sup>2 + y\<^sup>2 = x\<^sup>2 * (1 + (y / x)\<^sup>2)"
    using assms by (simp add: power_divide field_simps)
  then have "sqrt (x\<^sup>2 + y\<^sup>2) = sqrt (x\<^sup>2) * sqrt (1 + (y / x)\<^sup>2)"
    by (simp add: real_sqrt_mult)
  then show ?thesis using assms by simp
qed

lemma hypot_neg:
  fixes x y :: real
  assumes "x < 0"
  shows "sqrt (x\<^sup>2 + y\<^sup>2) = - x * sqrt (1 + (y / x)\<^sup>2)"
proof -
  have "x\<^sup>2 + y\<^sup>2 = x\<^sup>2 * (1 + (y / x)\<^sup>2)"
    using assms by (simp add: power_divide field_simps)
  then have "sqrt (x\<^sup>2 + y\<^sup>2) = sqrt (x\<^sup>2) * sqrt (1 + (y / x)\<^sup>2)"
    by (simp add: real_sqrt_mult)
  then show ?thesis using assms by simp
qed

lemma sqrt_1p_pos: "0 < sqrt (1 + (z::real)\<^sup>2)"
  by (simp add: add_pos_nonneg)

lemma arctan2_polar:
  "sqrt (x\<^sup>2 + y\<^sup>2) * cos (arctan2 y x) = x \<and> sqrt (x\<^sup>2 + y\<^sup>2) * sin (arctan2 y x) = y"
proof -
  consider (pos) "0 < x" | (neg) "x < 0" | (zero) "x = 0" by linarith
  then show ?thesis
  proof cases
    case pos
    have nz: "sqrt (1 + (y / x)\<^sup>2) \<noteq> 0" using sqrt_1p_pos [of "y / x"] by simp
    show ?thesis using pos nz
      by (simp add: arctan2_def hypot_pos cos_arctan sin_arctan)
  next
    case neg
    have nz: "sqrt (1 + (y / x)\<^sup>2) \<noteq> 0" using sqrt_1p_pos [of "y / x"] by simp
    show ?thesis using neg nz
      by (simp add: arctan2_def hypot_neg cos_arctan sin_arctan cos_diff sin_diff cos_add sin_add)
  next
    case zero
    then show ?thesis
      by (simp add: arctan2_def)
  qed
qed


lemma angle_polar:
  "radius c p * cos (angle c p) = real_of_int (snd p) - fst c \<and>
   radius c p * sin (angle c p) = real_of_int (fst p) - snd c"
  using arctan2_polar [of "real_of_int (snd p) - fst c" "real_of_int (fst p) - snd c"]
  by (simp add: angle_def radius_def Let_def)

lemma spiral_key_inj:
  assumes "radius c p = radius c q" "angle c p = angle c q"
  shows "p = q"
proof -
  have "real_of_int (snd p) - fst c = real_of_int (snd q) - fst c"
    using angle_polar [of c p] angle_polar [of c q] assms by metis
  moreover have "real_of_int (fst p) - snd c = real_of_int (fst q) - snd c"
    using angle_polar [of c p] angle_polar [of c q] assms by metis
  ultimately show ?thesis by (simp add: prod_eq_iff)
qed

lemma spiral_sort_mset: "mset (spiral_sort c cs) = mset cs"
  by (simp add: spiral_sort_def)



lemma spiral_given: "spiral binned si xy (Some c) = Inr (spiral_sort c (if binned then xy else si))"
  by (simp add: spiral_def ebind_def Let_def)

lemma spiral_default:
  assumes "(if binned then xy else si) \<noteq> []"
  shows "spiral binned si xy None =
     Inr (spiral_sort (real_of_int (Max (set (map snd (if binned then xy else si)))) / 2,
                       real_of_int (Max (set (map fst (if binned then xy else si)))) / 2)
            (if binned then xy else si))"
proof -
  let ?cs = "if binned then xy else si"
  have "map snd ?cs \<noteq> []" "map fst ?cs \<noteq> []" using assms by simp_all
  then have "amax (map snd ?cs) = Inr (Max (set (map snd ?cs)))"
            "amax (map fst ?cs) = Inr (Max (set (map fst ?cs)))"
    by (simp_all add: amax_Max)
  then show ?thesis by (simp add: spiral_def ebind_def Let_def)
qed

lemma spiral_empty_default: "spiral False [] xy None = Inl ValueError"
  by (simp add: spiral_def ebind_def Let_def)


lemma spiral_eval_square:
  "spiral False [(0,0),(0,1),(1,0),(1,1)] [] None = Inr [(1,1),(1,0),(0,0),(0,1)]"
  by (simp add: spiral_def ebind_def Let_def spiral_sort_def radius_def angle_def arctan2_def
      less_eq_prod_def arctan_one arctan_minus)

lemma spiral_returns:
  assumes "spiral_center \<noteq> None \<or> (if binned then xy else si) \<noteq> []"
  shows "spiral binned si xy spiral_center =
     Inr (spiral_sort (centre_used spiral_center (if binned then xy else si))
            (if binned then xy else si))"
proof (cases spiral_center)
  case None
  with assms have "(if binned then xy else si) \<noteq> []" by simp
  then show ?thesis using None spiral_default [of binned xy si]
    by (simp add: centre_used_def)
next
  case (Some c)
  then show ?thesis by (simp add: spiral_given centre_used_def)
qed



text \<open>
  Claim C10. Whatever the centre, Cube._spiral returns a permutation of the collection it
  traverses (the list \<open>xy\<close> of a binned cube, \<open>spec_indices\<close> otherwise): the same
  coordinates with the same multiplicities, and as many of them. With no centre given the
  collection has to hold a coordinate, since the default centre is taken from its maxima.
\<close>

theorem spiral_permutation:
  assumes "spiral_center \<noteq> None \<or> (if binned then xy else spec_indices) \<noteq> []"
  shows "\<exists>out. spiral binned spec_indices xy spiral_center = Inr out
      \<and> mset out = mset (if binned then xy else spec_indices)
      \<and> length out = length (if binned then xy else spec_indices)"
proof -
  let ?cs = "if binned then xy else spec_indices"
  let ?out = "spiral_sort (centre_used spiral_center ?cs) ?cs"
  have "spiral binned spec_indices xy spiral_center = Inr ?out"
    using assms by (rule spiral_returns)
  moreover have "mset ?out = mset ?cs" by (rule spiral_sort_mset)
  moreover have "length ?out = length ?cs" by (simp add: spiral_sort_def)
  ultimately show ?thesis by blast
qed

theorem spiral_permutation_witness:
  "\<exists>out. spiral False [(0,0),(0,1),(1,0),(1,1)] [] None = Inr out
      \<and> out = [(1,1),(1,0),(0,0),(0,1)]
      \<and> mset out = mset [(0,0),(0,1),(1,0),(1,1)]
      \<and> length out = 4"
proof -
  have h: "(None :: (real \<times> real) option) \<noteq> None
         \<or> (if False then [] else [(0,0),(0,1),(1,0),(1,1::int)]) \<noteq> ([]::coord list)"
    by simp
  from spiral_permutation [OF h] show ?thesis
    by (simp add: spiral_eval_square)
qed

section \<open>Properties of Spectrum.linefit\<close>

subsection \<open>Unfolding and composing the stages\<close>

lemmas np_defs = ebind_def getattr_def mask_index_def np_and_def np_sub_def np_mean_def
  stride_map_def scale_bound_def scale_bounds_def

lemmas ex_defs = wl10_def line_spectrum_def flagged_spectrum_def absorption_spectrum_def
  flat10_def line_signal_def no_bounds3_def default_minopts_def returns_function_def Spectrum_new_def
  default_copts_def

lemmas lf_defs = profile_of_def parnames_of_def fitting_mask_def
      too_many_flagged_def npars_pc_of_def profile_fun_def



lemma linefit_solution:
  assumes "profile_of function_name = Inr prof"
    and "fitting_mask (self\<lparr>fit_func := Some prof, parnames := Some (parnames_of prof)\<rparr>)
           fitting_window = Inr fw"
    and "flags self = Some fl"
    and "\<not> too_many_flagged fl"
    and "linefit_select env (self\<lparr>fit_func := Some prof, parnames := Some (parnames_of prof)\<rparr>)
           fw fl (AList.update ''returns'' (CStr ''function'')
                    (case copts of None \<Rightarrow> default_copts | Some c \<Rightarrow> c)) weights = Inr sl"
    and "linefit_scale (sel_s sl) (sel_v sl) p0 bounds (npars_pc_of prof) = Inr (Some sc)"
    and "linefit_minimize env prof (length p0) sl sc constraints inst_disp min_method minopts
           = Inr (sol, self4)"
  shows "linefit env self p0 function_name fitting_window constraints bounds inst_disp
           min_method minopts copts weights =
         Inr \<lparr>ret = Some sol, self_after = self4, p0_after = sc_p0 sc, bounds_after = bounds,
              copts_after = map_option (AList.update ''returns'' (CStr ''function'')) copts\<rparr>"
  using assms by (cases copts) (simp_all add: linefit_def ebind_def getattr_def Let_def)

lemma linefit_no_scale:
  assumes "profile_of function_name = Inr prof"
    and "fitting_mask (self\<lparr>fit_func := Some prof, parnames := Some (parnames_of prof)\<rparr>)
           fitting_window = Inr fw"
    and "flags self = Some fl"
    and "\<not> too_many_flagged fl"
    and "linefit_select env (self\<lparr>fit_func := Some prof, parnames := Some (parnames_of prof)\<rparr>)
           fw fl (AList.update ''returns'' (CStr ''function'')
                    (case copts of None \<Rightarrow> default_copts | Some c \<Rightarrow> c)) weights = Inr sl"
    and "linefit_scale (sel_s sl) (sel_v sl) p0 bounds (npars_pc_of prof) = Inr None"
  shows "linefit env self p0 function_name fitting_window constraints bounds inst_disp
           min_method minopts copts weights =
         Inr \<lparr>ret = None, self_after = sel_self sl, p0_after = p0, bounds_after = bounds,
              copts_after = map_option (AList.update ''returns'' (CStr ''function'')) copts\<rparr>"
  using assms by (cases copts) (simp_all add: linefit_def ebind_def getattr_def Let_def)

lemma linefit_flagged_branch:
  assumes "profile_of function_name = Inr prof"
    and "fitting_mask (self\<lparr>fit_func := Some prof, parnames := Some (parnames_of prof)\<rparr>)
           fitting_window = Inr fw"
    and "flags self = Some fl"
    and "too_many_flagged fl"
  shows "linefit env self p0 function_name fitting_window constraints bounds inst_disp
           min_method minopts copts weights =
         Inr \<lparr>ret = None,
              self_after = self\<lparr>fit_func := Some prof, parnames := Some (parnames_of prof),
                                fit_status := Some 98\<rparr>,
              p0_after = p0, bounds_after = bounds,
              copts_after = map_option (AList.update ''returns'' (CStr ''function'')) copts\<rparr>"
  using assms by (cases copts) (simp_all add: linefit_def ebind_def getattr_def Let_def)

lemma linefit_solution_cases:
  assumes "linefit env self p0 function_name fitting_window constraints bounds inst_disp
             min_method minopts copts weights = Inr out"
    and "ret out = Some sol"
  obtains prof fw fl sl sc self4 where
    "profile_of function_name = Inr prof"
    "fitting_mask (self\<lparr>fit_func := Some prof, parnames := Some (parnames_of prof)\<rparr>)
           fitting_window = Inr fw"
    "flags self = Some fl"
    "\<not> too_many_flagged fl"
    "linefit_select env (self\<lparr>fit_func := Some prof, parnames := Some (parnames_of prof)\<rparr>)
           fw fl (AList.update ''returns'' (CStr ''function'')
                    (case copts of None \<Rightarrow> default_copts | Some c \<Rightarrow> c)) weights = Inr sl"
    "linefit_scale (sel_s sl) (sel_v sl) p0 bounds (npars_pc_of prof) = Inr (Some sc)"
    "linefit_minimize env prof (length p0) sl sc constraints inst_disp min_method minopts
           = Inr (sol, self4)"
    "out = \<lparr>ret = Some sol, self_after = self4, p0_after = sc_p0 sc, bounds_after = bounds,
              copts_after = map_option (AList.update ''returns'' (CStr ''function'')) copts\<rparr>"
  using assms
  by (cases copts)
     (auto simp: linefit_def ebind_def getattr_def Let_def
           split: sum.splits option.splits if_splits prod.splits)

lemma linefit_scale_cases:
  assumes "linefit_scale s v p0 bounds npars_pc = Inr (Some sc)"
  obtains scale_factor b where
    "np_mean s = Inr scale_factor" "0 < scale_factor" "bounds = Some b"
    "sc = \<lparr>sc_scale_factor = scale_factor,
           sc_s = map (\<lambda>a. a / scale_factor) s,
           sc_v = (if list_all (\<lambda>a. a = 1) v then v else map (\<lambda>a. a / scale_factor\<^sup>2) v),
           sc_p0 = stride_map npars_pc (\<lambda>a. a / scale_factor) p0,
           sc_sbounds = stride_map npars_pc (scale_bound scale_factor) b\<rparr>"
  using assms
  by (auto simp: linefit_scale_def scale_bounds_def ebind_def Let_def
           split: sum.splits option.splits if_splits)

lemma linefit_minimize_cases:
  assumes "linefit_minimize env prof npars sl sc constraints inst_disp min_method minopts
           = Inr (sol, self4)"
  obtains r where
    "minimize env (res (profile_fun env prof) (sel_wl sl) (sel_w sl) (sc_s sc) (sc_v sc))
       (sc_p0 sc) min_method (sc_sbounds sc) constraints minopts = Inr r"
    "inst_disp \<noteq> 0"
    "sol = stride_map (npars_pc_of prof) (\<lambda>a. a * sc_scale_factor sc)
             (r_x r @ [res (profile_fun env prof) (sel_wl sl) (sel_w sl) (sc_s sc) (sc_v sc) (r_x r)
                / (real (length (sc_s sc)) / inst_disp - real npars - real (length constraints) - 1)])"
  using assms
  by (auto simp: linefit_minimize_def ebind_def Let_def
           split: sum.splits option.splits if_splits)

lemma linefit_select_keeps:
  assumes "linefit_select env self fw fl cp weights = Inr sl"
  shows "fit_status (sel_self sl) = fit_status self \<and> em_model (sel_self sl) = em_model self"
  using assms
  by (auto simp: linefit_select_def ebind_def Let_def split: sum.splits option.splits if_splits)

lemma linefit_scale_no_bounds: "linefit_scale s v p0 None k \<noteq> Inr (Some sc)"
  by (auto simp: linefit_scale_def scale_bounds_def ebind_def Let_def
           split: sum.splits option.splits if_splits)

lemma linefit_without_bounds:
  assumes "linefit env self p0 function_name fitting_window constraints None inst_disp
             min_method minopts copts weights = Inr out"
  shows "ret out = None"
proof (cases "ret out")
  case None
  then show ?thesis .
next
  case (Some sol)
  from assms Some obtain prof and sl :: selection and sc where
    "linefit_scale (sel_s sl) (sel_v sl) p0 None (npars_pc_of prof) = Inr (Some sc)"
    by (rule linefit_solution_cases)
  then show ?thesis using linefit_scale_no_bounds by blast
qed

lemma stride_map_last:
  assumes "length xs mod k = 0"
  shows "last (stride_map k f (xs @ [q])) = f q"
  using assms by (simp add: stride_map_def)

lemma linefit_trailing_general:
  assumes "linefit env self p0 function_name fitting_window constraints bounds inst_disp
             min_method minopts copts weights = Inr out"
    and "ret out = Some sol"
  shows "\<exists>prof fw fl sl (sc::scaled) r.
      profile_of function_name = Inr prof
    \<and> linefit_select env (self\<lparr>fit_func := Some prof, parnames := Some (parnames_of prof)\<rparr>)
           fw fl (AList.update ''returns'' (CStr ''function'')
                    (case copts of None \<Rightarrow> default_copts | Some c \<Rightarrow> c)) weights = Inr sl
    \<and> linefit_scale (sel_s sl) (sel_v sl) p0 bounds (npars_pc_of prof) = Inr (Some sc)
    \<and> minimize env (res (profile_fun env prof) (sel_wl sl) (sel_w sl) (sc_s sc) (sc_v sc))
         (sc_p0 sc) min_method (sc_sbounds sc) constraints minopts = Inr r
    \<and> (length (r_x r) mod npars_pc_of prof = 0 \<longrightarrow>
         last sol =
           res (profile_fun env prof) (sel_wl sl) (sel_w sl) (sc_s sc) (sc_v sc) (r_x r)
           / (real (length (sc_s sc)) / inst_disp - real (length p0)
              - real (length constraints) - 1)
           * sc_scale_factor sc)"
proof -
  from assms obtain prof fw fl sl sc self4 where
    p: "profile_of function_name = Inr prof"
    and sel: "linefit_select env (self\<lparr>fit_func := Some prof, parnames := Some (parnames_of prof)\<rparr>)
           fw fl (AList.update ''returns'' (CStr ''function'')
                    (case copts of None \<Rightarrow> default_copts | Some c \<Rightarrow> c)) weights = Inr sl"
    and scl: "linefit_scale (sel_s sl) (sel_v sl) p0 bounds (npars_pc_of prof) = Inr (Some sc)"
    and mn: "linefit_minimize env prof (length p0) sl sc constraints inst_disp min_method minopts
           = Inr (sol, self4)"
    by (rule linefit_solution_cases)
  from mn obtain r where
    r: "minimize env (res (profile_fun env prof) (sel_wl sl) (sel_w sl) (sc_s sc) (sc_v sc))
       (sc_p0 sc) min_method (sc_sbounds sc) constraints minopts = Inr r"
    and sol: "sol = stride_map (npars_pc_of prof) (\<lambda>a. a * sc_scale_factor sc)
             (r_x r @ [res (profile_fun env prof) (sel_wl sl) (sel_w sl) (sc_s sc) (sc_v sc) (r_x r)
                / (real (length (sc_s sc)) / inst_disp - real (length p0)
                   - real (length constraints) - 1)])"
    by (rule linefit_minimize_cases)
  have l: "length (r_x r) mod npars_pc_of prof = 0 \<longrightarrow>
         last sol =
           res (profile_fun env prof) (sel_wl sl) (sel_w sl) (sc_s sc) (sc_v sc) (r_x r)
           / (real (length (sc_s sc)) / inst_disp - real (length p0)
              - real (length constraints) - 1)
           * sc_scale_factor sc"
    by (simp add: sol stride_map_last)
  show ?thesis
    by (intro exI conjI) (rule p sel scl r l)+
qed

subsection \<open>The example runs\<close>

lemma line_pre:
  "profile_of ''gaussian'' = Inr Gauss"
  "fitting_mask (line_spectrum\<lparr>fit_func := Some Gauss, parnames := Some (parnames_of Gauss)\<rparr>) None
     = Inr [True, True, True, True, True, True, True, True, True, True]"
  "flags line_spectrum
     = Some [False, False, False, False, False, False, False, False, False, False]"
  "\<not> too_many_flagged [False, False, False, False, False, False, False, False, False, False]"
  by (simp_all add: profile_of_def fitting_mask_def ebind_def getattr_def line_spectrum_def
      Spectrum_new_def too_many_flagged_def)

lemma select_line:
  "continuum env wl10 [1, 1, 1, 5, 8, 5, 1, 1, 1, 1] cp = Inr flat10 \<Longrightarrow>
   linefit_select env (line_spectrum\<lparr>fit_func := Some Gauss, parnames := Some (parnames_of Gauss)\<rparr>)
     [True, True, True, True, True, True, True, True, True, True]
     [False, False, False, False, False, False, False, False, False, False] cp weights0 =
   Inr \<lparr>sel_self = line_spectrum\<lparr>fit_func := Some Gauss, parnames := Some (parnames_of Gauss),
           fitcont := Some flat10, fitwl := Some wl10, fitspec := Some (map (\<lambda>_. 0) flat10),
           resultspec := Some (map (\<lambda>_. 0) flat10)\<rparr>,
        sel_wl = wl10,
        sel_w = (case weights0 of None \<Rightarrow> flat10 | Some ws \<Rightarrow> ws),
        sel_cont = flat10,
        sel_s = [0, 0, 0, 4, 7, 4, 0, 0, 0, 0], sel_v = flat10\<rparr>"
  by (cases weights0) (simp_all add: linefit_select_def np_defs ex_defs lf_defs Let_def)

lemma scale_line:
  "linefit_scale [0, 0, 0, 4, 7, 4, 0, 0, 0, 0] flat10 [a, m, sg] (Some no_bounds3)
     (npars_pc_of Gauss) =
   Inr (Some \<lparr>sc_scale_factor = 3 / 2, sc_s = line_signal, sc_v = flat10,
              sc_p0 = [a / (3 / 2), m, sg], sc_sbounds = no_bounds3\<rparr>)"
  by (simp add: linefit_scale_def np_defs ex_defs npars_pc_of_def Let_def upt_rec)

lemma minimize_line:
  assumes min: "minimize env (res (gauss env) wl10 flat10 line_signal flat10) x0 ''SLSQP''
                  no_bounds3 [] default_minopts = Inr r"
    and len: "r_x r = [ra, rm, rs]"
  shows "linefit_minimize env Gauss (length [a, m, sg])
     \<lparr>sel_self = sf0, sel_wl = wl10, sel_w = flat10, sel_cont = flat10,
        sel_s = [0, 0, 0, 4, 7, 4, 0, 0, 0, 0], sel_v = flat10\<rparr>
     \<lparr>sc_scale_factor = 3 / 2, sc_s = line_signal, sc_v = flat10,
              sc_p0 = x0, sc_sbounds = no_bounds3\<rparr> [] 1 ''SLSQP'' default_minopts =
     Inr ([ra * (3 / 2), rm, rs,
           res (gauss env) wl10 flat10 line_signal flat10 [ra, rm, rs] / 6 * (3 / 2)],
          sf0\<lparr>fitspec := Some [1, 1, 1, 5, 8, 5, 1, 1, 1, 1],
               resultspec := Some (map (\<lambda>(c, m). c + m * (3 / 2))
                            (zip flat10 (gauss env wl10 [ra, rm, rs]))),
               em_model := Some [ra * (3 / 2), rm, rs,
           res (gauss env) wl10 flat10 line_signal flat10 [ra, rm, rs] / 6 * (3 / 2)],
               fit_status := Some (r_status r)\<rparr>)"
  using min len
  by (simp add: linefit_minimize_def ebind_def Let_def npars_pc_of_def profile_fun_def
      stride_map_def upt_rec line_signal_def flat10_def)

lemma res_example:
  "res (gauss example_env) wl10 flat10 line_signal flat10 [0, 5000, 2] = 6"
proof -
  have "res (gauss example_env) wl10 flat10 line_signal flat10 [0, 5000, 2]
      = sqrt (2 * (8 / 3)\<^sup>2 + (14 / 3)\<^sup>2)"
    by (simp add: res_def example_env_def wl10_def flat10_def line_signal_def upt_rec Let_def)
  also have "2 * (8 / 3)\<^sup>2 + (14 / 3)\<^sup>2 = (6::real)\<^sup>2"
    by (simp add: power2_eq_square)
  also have "sqrt ((6::real)\<^sup>2) = 6" by simp
  finally show ?thesis .
qed

lemma linefit_line_run:
  assumes cont: "continuum env wl10 [1, 1, 1, 5, 8, 5, 1, 1, 1, 1]
                   (AList.update ''returns'' (CStr ''function'')
                      (case copts of None \<Rightarrow> default_copts | Some c \<Rightarrow> c)) = Inr flat10"
    and min: "minimize env (res (gauss env) wl10 flat10 line_signal flat10) [a / (3 / 2), m, sg]
                ''SLSQP'' no_bounds3 [] default_minopts = Inr r"
    and len: "r_x r = [ra, rm, rs]"
  shows "linefit env line_spectrum [a, m, sg] ''gaussian'' None [] (Some no_bounds3) 1
              ''SLSQP'' default_minopts copts None =
         Inr \<lparr>ret = Some [ra * (3 / 2), rm, rs,
                    res (gauss env) wl10 flat10 line_signal flat10 [ra, rm, rs] / 6 * (3 / 2)],
              self_after = line_spectrum\<lparr>fit_func := Some Gauss,
                 parnames := Some (parnames_of Gauss),
                 fitcont := Some flat10, fitwl := Some wl10,
                 fitspec := Some [1, 1, 1, 5, 8, 5, 1, 1, 1, 1],
                 resultspec := Some (map (\<lambda>(c, m). c + m * (3 / 2))
                            (zip flat10 (gauss env wl10 [ra, rm, rs]))),
                 em_model := Some [ra * (3 / 2), rm, rs,
                    res (gauss env) wl10 flat10 line_signal flat10 [ra, rm, rs] / 6 * (3 / 2)],
                 fit_status := Some (r_status r)\<rparr>,
              p0_after = [a / (3 / 2), m, sg],
              bounds_after = Some no_bounds3,
              copts_after = map_option (AList.update ''returns'' (CStr ''function'')) copts\<rparr>"
proof -
  let ?self1 = "line_spectrum\<lparr>fit_func := Some Gauss, parnames := Some (parnames_of Gauss)\<rparr>"
  let ?self3 = "?self1\<lparr>fitcont := Some flat10, fitwl := Some wl10,
                 fitspec := Some (map (\<lambda>_. 0) flat10),
                 resultspec := Some (map (\<lambda>_. 0) flat10)\<rparr>"
  let ?sl = "\<lparr>sel_self = ?self3,
               sel_wl = wl10, sel_w = flat10, sel_cont = flat10,
               sel_s = [0, 0, 0, 4, 7, 4, 0, 0, 0, 0], sel_v = flat10\<rparr>"
  let ?sc = "\<lparr>sc_scale_factor = 3 / 2, sc_s = line_signal, sc_v = flat10,
               sc_p0 = [a / (3 / 2), m, sg], sc_sbounds = no_bounds3\<rparr>"
  have sel: "linefit_select env ?self1
       [True, True, True, True, True, True, True, True, True, True]
       [False, False, False, False, False, False, False, False, False, False]
       (AList.update ''returns'' (CStr ''function'')
          (case copts of None \<Rightarrow> default_copts | Some c \<Rightarrow> c)) None = Inr ?sl"
    using select_line [OF cont, of None] by simp
  have sc: "linefit_scale (sel_s ?sl) (sel_v ?sl) [a, m, sg] (Some no_bounds3) (npars_pc_of Gauss)
       = Inr (Some ?sc)"
    using scale_line [of a m sg] by simp
  note mn = minimize_line [OF min len, of a m sg ?self3]
  show ?thesis
    by (simp add: linefit_solution [OF line_pre sel sc mn])
qed

lemma example_run:
  "linefit example_env line_spectrum [4, 5000, 9 / 5] ''gaussian'' None []
     (Some no_bounds3) 1 ''SLSQP'' default_minopts (Some [(''degr'', CNum 3)]) None =
   Inr \<lparr>ret = Some [8 / 3 * (3 / 2), 5000, 9 / 5,
              res (gauss example_env) wl10 flat10 line_signal flat10 [8 / 3, 5000, 9 / 5] / 6
                * (3 / 2)],
        self_after = line_spectrum\<lparr>fit_func := Some Gauss,
           parnames := Some (parnames_of Gauss),
           fitcont := Some flat10, fitwl := Some wl10,
           fitspec := Some [1, 1, 1, 5, 8, 5, 1, 1, 1, 1],
           resultspec := Some (map (\<lambda>(c, m). c + m * (3 / 2))
                      (zip flat10 (gauss example_env wl10 [8 / 3, 5000, 9 / 5]))),
           em_model := Some [8 / 3 * (3 / 2), 5000, 9 / 5,
              res (gauss example_env) wl10 flat10 line_signal flat10 [8 / 3, 5000, 9 / 5] / 6
                * (3 / 2)],
           fit_status := Some 0\<rparr>,
        p0_after = [8 / 3, 5000, 9 / 5],
        bounds_after = Some no_bounds3,
        copts_after = Some [(''degr'', CNum 3), (''returns'', CStr ''function'')]\<rparr>"
proof -
  have c: "continuum example_env wl10 [1, 1, 1, 5, 8, 5, 1, 1, 1, 1]
            (AList.update ''returns'' (CStr ''function'')
               (case Some [(''degr'', CNum 3)] of None \<Rightarrow> default_copts | Some c \<Rightarrow> c))
           = Inr flat10"
    by (simp add: example_env_def wl10_def flat10_def)
  have m: "minimize example_env (res (gauss example_env) wl10 flat10 line_signal flat10)
             [4 / (3 / 2), 5000, 9 / 5] ''SLSQP'' no_bounds3 [] default_minopts
           = Inr \<lparr>r_x = [8 / 3, 5000, 9 / 5], r_status = 0\<rparr>"
    by (simp add: example_env_def)
  have l: "r_x \<lparr>r_x = [8 / 3, 5000, 9 / 5 :: real], r_status = 0\<rparr> = [8 / 3, 5000, 9 / 5]"
    by simp
  from linefit_line_run [OF c m l] show ?thesis by simp
qed

lemma gaussian_pre:
  "fitting_mask (gaussian_spectrum\<lparr>fit_func := Some Gauss, parnames := Some (parnames_of Gauss)\<rparr>) None
     = Inr [True, True, True, True, True, True, True, True, True, True]"
  "flags gaussian_spectrum
     = Some [False, False, False, False, False, False, False, False, False, False]"
  by (simp_all add: fitting_mask_def ebind_def getattr_def gaussian_spectrum_def
      gaussian_data_def wl10_def line_spectrum_def Spectrum_new_def)

subsection \<open>The claims about Spectrum.linefit\<close>

text \<open>
  Claim C2. With more than 80 percent of the pixels flagged, \<^verbatim>\<open>linefit\<close> stops before the
  continuum and the minimizer (the result below does not depend on the environment) and
  records the status 98. It yields no all-NaN solution: \<^verbatim>\<open>nan_solution\<close> is bound to the
  local name \<^verbatim>\<open>p\<close> and dropped, the method returns \<^verbatim>\<open>None\<close>, and \<^verbatim>\<open>self.em_model\<close> is
  left as it was (unset, on a new spectrum).
\<close>

theorem linefit_flagged:
  assumes "profile_of function_name = Inr prof"
    and "fitting_mask (self\<lparr>fit_func := Some prof, parnames := Some (parnames_of prof)\<rparr>)
           fitting_window = Inr fw"
    and "flags self = Some fl"
    and "too_many_flagged fl"
  shows "linefit env self p0 function_name fitting_window constraints bounds inst_disp
           min_method minopts copts weights =
         Inr \<lparr>ret = None,
              self_after = self\<lparr>fit_func := Some prof, parnames := Some (parnames_of prof),
                                fit_status := Some 98\<rparr>,
              p0_after = p0, bounds_after = bounds,
              copts_after = map_option (AList.update ''returns'' (CStr ''function'')) copts\<rparr>"
  using assms by (rule linefit_flagged_branch)

theorem linefit_flagged_witness:
  "too_many_flagged [True, True, True, True, True, True, True, True, True, True] \<and>
   linefit example_env flagged_spectrum [4, 5000, 9 / 5] ''gaussian'' None []
     (Some no_bounds3) 1 ''SLSQP'' default_minopts None None =
   Inr \<lparr>ret = None,
        self_after = flagged_spectrum\<lparr>fit_func := Some Gauss,
          parnames := Some [''A'', ''wl'', ''s''], fit_status := Some 98\<rparr>,
        p0_after = [4, 5000, 9 / 5], bounds_after = Some no_bounds3, copts_after = None\<rparr> \<and>
   em_model (flagged_spectrum\<lparr>fit_func := Some Gauss,
          parnames := Some [''A'', ''wl'', ''s''], fit_status := Some 98\<rparr>) = None"
proof -
  have p: "profile_of ''gaussian'' = Inr Gauss" by (simp add: profile_of_def)
  have m: "fitting_mask (flagged_spectrum\<lparr>fit_func := Some Gauss,
               parnames := Some (parnames_of Gauss)\<rparr>) None
           = Inr [True, True, True, True, True, True, True, True, True, True]"
    by (simp add: fitting_mask_def ebind_def getattr_def flagged_spectrum_def line_spectrum_def
        Spectrum_new_def)
  have f: "flags flagged_spectrum
           = Some [True, True, True, True, True, True, True, True, True, True]"
    by (simp add: flagged_spectrum_def)
  have t: "too_many_flagged [True, True, True, True, True, True, True, True, True, True]"
    by (simp add: too_many_flagged_def)
  from linefit_flagged [OF p m f t, of example_env "[4, 5000, 9 / 5]" "[]" "Some no_bounds3" 1
      "''SLSQP''" default_minopts None None] t
  show ?thesis
    by (simp add: parnames_of_def flagged_spectrum_def line_spectrum_def Spectrum_new_def)
qed

text \<open>
  Claim C3. With a scale factor that is not positive, \<^verbatim>\<open>linefit\<close> stops before the
  minimizer. It neither records the status 97 nor yields an all-NaN solution: 97 is bound
  to the local name \<^verbatim>\<open>fit_status\<close> (the branch for flagged pixels assigns
  \<^verbatim>\<open>self.fit_status\<close>), \<^verbatim>\<open>nan_solution\<close> is bound to the local name \<^verbatim>\<open>p\<close>, and the method
  returns \<^verbatim>\<open>None\<close>; \<^verbatim>\<open>self.fit_status\<close> and \<^verbatim>\<open>self.em_model\<close> are left as they were.
\<close>

theorem linefit_nonpositive_scale:
  assumes "profile_of function_name = Inr prof"
    and "fitting_mask (self\<lparr>fit_func := Some prof, parnames := Some (parnames_of prof)\<rparr>)
           fitting_window = Inr fw"
    and "flags self = Some fl"
    and "\<not> too_many_flagged fl"
    and "linefit_select env (self\<lparr>fit_func := Some prof, parnames := Some (parnames_of prof)\<rparr>)
           fw fl (AList.update ''returns'' (CStr ''function'')
                    (case copts of None \<Rightarrow> default_copts | Some c \<Rightarrow> c)) weights = Inr sl"
    and "np_mean (sel_s sl) = Inr scale_factor"
    and "scale_factor \<le> 0"
  shows "linefit env self p0 function_name fitting_window constraints bounds inst_disp
           min_method minopts copts weights =
         Inr \<lparr>ret = None, self_after = sel_self sl, p0_after = p0, bounds_after = bounds,
              copts_after = map_option (AList.update ''returns'' (CStr ''function'')) copts\<rparr>
       \<and> fit_status (sel_self sl) = fit_status self
       \<and> em_model (sel_self sl) = em_model self"
proof -
  have "linefit_scale (sel_s sl) (sel_v sl) p0 bounds (npars_pc_of prof) = Inr None"
    using assms(6,7) by (simp add: linefit_scale_def ebind_def)
  from linefit_no_scale [OF assms(1-5) this] linefit_select_keeps [OF assms(5)]
  show ?thesis by simp
qed

theorem linefit_nonpositive_scale_witness:
  "linefit example_env absorption_spectrum [4, 5000, 9 / 5] ''gaussian'' None []
     (Some no_bounds3) 1 ''SLSQP'' default_minopts None None =
   Inr \<lparr>ret = None,
        self_after = absorption_spectrum\<lparr>fit_func := Some Gauss,
          parnames := Some [''A'', ''wl'', ''s''], fitcont := Some flat10, fitwl := Some wl10,
          fitspec := Some [0, 0, 0, 0, 0, 0, 0, 0, 0, 0],
          resultspec := Some [0, 0, 0, 0, 0, 0, 0, 0, 0, 0]\<rparr>,
        p0_after = [4, 5000, 9 / 5], bounds_after = Some no_bounds3, copts_after = None\<rparr>
   \<and> np_mean [0, 0, 0, - (1 / 2), - (3 / 4), - (1 / 2), 0, 0, 0, 0] = Inr (- (7 / 40))
   \<and> fit_status absorption_spectrum = None
   \<and> em_model absorption_spectrum = None"
proof -
  let ?self1 = "absorption_spectrum\<lparr>fit_func := Some Gauss, parnames := Some (parnames_of Gauss)\<rparr>"
  let ?sl = "\<lparr>sel_self = ?self1\<lparr>fitcont := Some flat10, fitwl := Some wl10,
                 fitspec := Some [0, 0, 0, 0, 0, 0, 0, 0, 0, 0],
                 resultspec := Some [0, 0, 0, 0, 0, 0, 0, 0, 0, 0]\<rparr>,
               sel_wl = wl10, sel_w = flat10, sel_cont = flat10,
               sel_s = [0, 0, 0, - (1 / 2), - (3 / 4), - (1 / 2), 0, 0, 0, 0], sel_v = flat10\<rparr>"
  have p: "profile_of ''gaussian'' = Inr Gauss" by (simp add: profile_of_def)
  have m: "fitting_mask ?self1 None
           = Inr [True, True, True, True, True, True, True, True, True, True]"
    by (simp add: fitting_mask_def ebind_def getattr_def absorption_spectrum_def
        line_spectrum_def Spectrum_new_def)
  have f: "flags absorption_spectrum
           = Some [False, False, False, False, False, False, False, False, False, False]"
    by (simp add: absorption_spectrum_def line_spectrum_def)
  have t: "\<not> too_many_flagged [False, False, False, False, False, False, False, False, False, False]"
    by (simp add: too_many_flagged_def)
  have sel: "linefit_select example_env ?self1
       [True, True, True, True, True, True, True, True, True, True]
       [False, False, False, False, False, False, False, False, False, False]
       (AList.update ''returns'' (CStr ''function'')
          (case None of None \<Rightarrow> default_copts | Some c \<Rightarrow> c)) None = Inr ?sl"
    by (simp add: linefit_select_def np_defs ex_defs lf_defs example_env_def Let_def)
  have mean: "np_mean (sel_s ?sl) = Inr (- (7 / 40))"
    by (simp add: np_mean_def)
  have neg: "- (7 / 40) \<le> (0::real)" by simp
  from linefit_nonpositive_scale [OF p m f t sel mean neg, of "[4, 5000, 9 / 5]" "[]"
      "Some no_bounds3" 1 "''SLSQP''" default_minopts] mean
  show ?thesis
    by (simp add: parnames_of_def absorption_spectrum_def line_spectrum_def Spectrum_new_def)
qed

text \<open>
  Claim C4. The claim makes the trailing element of the solution the reduced chi square
  \<open>rms\<^sup>2 / dof\<close>. The source computes \<^verbatim>\<open>chi2 = res(r['x'])\<close>, which is the root
  \<open>rms\<close> and not its square, divides it by \<^verbatim>\<open>nu\<close>, appends it to the solution, and then
  multiplies every \<^verbatim>\<open>npars_pc\<close>-th element of the solution by \<^verbatim>\<open>scale_factor\<close>: the
  appended element has index \<^verbatim>\<open>npars\<close>, a multiple of \<^verbatim>\<open>npars_pc\<close>, and is multiplied
  too. For the ten-pixel line spectrum (scale factor 3/2, ten valid pixels, three
  parameters, no constraint, so \<open>nu = 6\<close>) and whatever the minimizer returns, the
  trailing element is \<open>rms / 6 * (3 / 2)\<close>. In the example run \<open>rms = 6\<close>: the trailing
  element is 3/2, and \<open>rms\<^sup>2 / dof\<close> would be 6. (Lemma \<open>linefit_trailing_general\<close>:
  the trailing element of every returned solution is \<open>rms / nu * scale_factor\<close>.)
\<close>

theorem linefit_trailing_element:
  assumes cont: "continuum env wl10 [1, 1, 1, 5, 8, 5, 1, 1, 1, 1] returns_function = Inr flat10"
    and min: "minimize env (res (gauss env) wl10 flat10 line_signal flat10) [a / (3 / 2), m, sg]
                ''SLSQP'' no_bounds3 [] default_minopts = Inr r"
    and len: "r_x r = [ra, rm, rs]"
  shows "map_sum id ret
           (linefit env line_spectrum [a, m, sg] ''gaussian'' None [] (Some no_bounds3) 1
              ''SLSQP'' default_minopts None None) =
         Inr (Some [ra * (3 / 2), rm, rs,
                    res (gauss env) wl10 flat10 line_signal flat10 [ra, rm, rs] / 6 * (3 / 2)])"
proof -
  have c: "continuum env wl10 [1, 1, 1, 5, 8, 5, 1, 1, 1, 1]
             (AList.update ''returns'' (CStr ''function'')
                (case None of None \<Rightarrow> default_copts | Some c \<Rightarrow> c)) = Inr flat10"
    using cont by (simp add: returns_function_def)
  show ?thesis
    by (simp add: linefit_line_run [OF c min len])
qed

theorem linefit_trailing_element_witness:
  "map_sum id ret
     (linefit example_env line_spectrum [0, 5000, 2] ''gaussian'' None [] (Some no_bounds3) 1
        ''SLSQP'' default_minopts None None) = Inr (Some [0, 5000, 2, 3 / 2])
   \<and> res (gauss example_env) wl10 flat10 line_signal flat10 [0, 5000, 2] = 6
   \<and> (6::real)\<^sup>2 / 6 \<noteq> 3 / 2"
proof -
  have c: "continuum example_env wl10 [1, 1, 1, 5, 8, 5, 1, 1, 1, 1] returns_function = Inr flat10"
    by (simp add: example_env_def wl10_def flat10_def)
  have m: "minimize example_env (res (gauss example_env) wl10 flat10 line_signal flat10)
             [0 / (3 / 2), 5000, 2] ''SLSQP'' no_bounds3 [] default_minopts
           = Inr \<lparr>r_x = [0, 5000, 2], r_status = 0\<rparr>"
    by (simp add: example_env_def)
  have l: "r_x \<lparr>r_x = [0, 5000, 2::real], r_status = 0\<rparr> = [0, 5000, 2]" by simp
  from linefit_trailing_element [OF c m l] show ?thesis
    by (simp add: res_example)
qed




text \<open>
  Claim C8. The claim holds for \<^verbatim>\<open>bounds\<close>, of which \<^verbatim>\<open>scale_bounds\<close> changes a deep copy,
  and fails for the other two arguments: after every call that returns a solution, the
  caller's array \<^verbatim>\<open>p0\<close> holds the guess with the first parameter of every block divided
  by the scale factor (\<^verbatim>\<open>p0[::npars_pc] /= scale_factor\<close> works in place), and a dictionary
  passed as \<^verbatim>\<open>copts\<close> holds the additional entry \<^verbatim>\<open>returns = 'function'\<close>
  (\<^verbatim>\<open>copts.update\<close> works in place). In the example run the guess [4, 5000, 1.8] is
  [8/3, 5000, 1.8] after the call.
\<close>

theorem linefit_changes_caller_arguments:
  assumes "linefit env self p0 function_name fitting_window constraints bounds inst_disp
             min_method minopts copts weights = Inr out"
    and "ret out = Some sol"
  shows "\<exists>prof fw fl sl scale_factor.
      profile_of function_name = Inr prof
    \<and> linefit_select env (self\<lparr>fit_func := Some prof, parnames := Some (parnames_of prof)\<rparr>)
           fw fl (AList.update ''returns'' (CStr ''function'')
                    (case copts of None \<Rightarrow> default_copts | Some c \<Rightarrow> c)) weights = Inr sl
    \<and> np_mean (sel_s sl) = Inr scale_factor \<and> 0 < scale_factor
    \<and> p0_after out = stride_map (npars_pc_of prof) (\<lambda>a. a / scale_factor) p0
    \<and> bounds_after out = bounds
    \<and> copts_after out = map_option (AList.update ''returns'' (CStr ''function'')) copts"
proof -
  from assms obtain prof fw fl sl sc self4 where
    p: "profile_of function_name = Inr prof"
    and sel: "linefit_select env (self\<lparr>fit_func := Some prof, parnames := Some (parnames_of prof)\<rparr>)
           fw fl (AList.update ''returns'' (CStr ''function'')
                    (case copts of None \<Rightarrow> default_copts | Some c \<Rightarrow> c)) weights = Inr sl"
    and scl: "linefit_scale (sel_s sl) (sel_v sl) p0 bounds (npars_pc_of prof) = Inr (Some sc)"
    and out: "out = \<lparr>ret = Some sol, self_after = self4, p0_after = sc_p0 sc,
              bounds_after = bounds,
              copts_after = map_option (AList.update ''returns'' (CStr ''function'')) copts\<rparr>"
    by (rule linefit_solution_cases)
  from scl obtain scale_factor b where
    mean: "np_mean (sel_s sl) = Inr scale_factor" and pos: "0 < scale_factor"
    and sc: "sc = \<lparr>sc_scale_factor = scale_factor,
           sc_s = map (\<lambda>a. a / scale_factor) (sel_s sl),
           sc_v = (if list_all (\<lambda>a. a = 1) (sel_v sl) then sel_v sl
                   else map (\<lambda>a. a / scale_factor\<^sup>2) (sel_v sl)),
           sc_p0 = stride_map (npars_pc_of prof) (\<lambda>a. a / scale_factor) p0,
           sc_sbounds = stride_map (npars_pc_of prof) (scale_bound scale_factor) b\<rparr>"
    by (rule linefit_scale_cases)
  have a: "p0_after out = stride_map (npars_pc_of prof) (\<lambda>a. a / scale_factor) p0"
    by (simp add: out sc)
  have b: "bounds_after out = bounds" by (simp add: out)
  have c: "copts_after out = map_option (AList.update ''returns'' (CStr ''function'')) copts"
    by (simp add: out)
  show ?thesis
    by (intro exI conjI) (rule p sel mean pos a b c)+
qed

theorem linefit_changes_caller_arguments_witness:
  "\<exists>out. linefit example_env line_spectrum [4, 5000, 9 / 5] ''gaussian'' None []
            (Some no_bounds3) 1 ''SLSQP'' default_minopts (Some [(''degr'', CNum 3)]) None
          = Inr out
      \<and> p0_after out = [8 / 3, 5000, 9 / 5]
      \<and> p0_after out \<noteq> [4, 5000, 9 / 5]
      \<and> copts_after out = Some [(''degr'', CNum 3), (''returns'', CStr ''function'')]
      \<and> copts_after out \<noteq> Some [(''degr'', CNum 3)]
      \<and> bounds_after out = Some no_bounds3
      \<and> (\<exists>scale_factor. 0 < scale_factor
            \<and> p0_after out = stride_map 3 (\<lambda>a. a / scale_factor) [4, 5000, 9 / 5])"
proof -
  let ?out = "\<lparr>ret = Some [8 / 3 * (3 / 2), 5000, 9 / 5,
              res (gauss example_env) wl10 flat10 line_signal flat10 [8 / 3, 5000, 9 / 5] / 6
                * (3 / 2)],
        self_after = line_spectrum\<lparr>fit_func := Some Gauss,
           parnames := Some (parnames_of Gauss),
           fitcont := Some flat10, fitwl := Some wl10,
           fitspec := Some [1, 1, 1, 5, 8, 5, 1, 1, 1, 1],
           resultspec := Some (map (\<lambda>(c, m). c + m * (3 / 2))
                      (zip flat10 (gauss example_env wl10 [8 / 3, 5000, 9 / 5]))),
           em_model := Some [8 / 3 * (3 / 2), 5000, 9 / 5,
              res (gauss example_env) wl10 flat10 line_signal flat10 [8 / 3, 5000, 9 / 5] / 6
                * (3 / 2)],
           fit_status := Some 0\<rparr>,
        p0_after = [8 / 3, 5000, 9 / 5],
        bounds_after = Some no_bounds3,
        copts_after = Some [(''degr'', CNum 3), (''returns'', CStr ''function'')]\<rparr>"
  have r: "ret ?out = Some [8 / 3 * (3 / 2), 5000, 9 / 5,
              res (gauss example_env) wl10 flat10 line_signal flat10 [8 / 3, 5000, 9 / 5] / 6
                * (3 / 2)]" by simp
  from linefit_changes_caller_arguments [OF example_run r]
  obtain prof scale_factor where
    "profile_of ''gaussian'' = Inr prof" "0 < scale_factor"
    "p0_after ?out = stride_map (npars_pc_of prof) (\<lambda>a. a / scale_factor) [4, 5000, 9 / 5]"
    by blast
  then have "\<exists>scale_factor. 0 < scale_factor
            \<and> p0_after ?out = stride_map 3 (\<lambda>a. a / scale_factor) [4, 5000, 9 / 5]"
    by (auto simp: profile_of_def npars_pc_of_def)
  then show ?thesis
    using example_run by simp
qed

text \<open>
  Claim C9. In the scenario of the claim no bounds are given, so \<^verbatim>\<open>bounds\<close> has its default
  \<^verbatim>\<open>None\<close>. With a continuum of 1 the scale factor is the mean of the gaussian, which is
  positive, and \<^verbatim>\<open>scale_bounds(None, ...)\<close> raises TypeError at \<^verbatim>\<open>b[::npars_pc]\<close>, before
  the minimizer is reached: the call does not converge with status 0, it does not return.
  (Lemma \<open>linefit_without_bounds\<close>: with \<^verbatim>\<open>bounds = None\<close> no call returns a solution,
  whatever the continuum is.)
\<close>

theorem linefit_default_bounds_raises:
  assumes cont: "continuum env wl10 gaussian_data returns_function = Inr flat10"
  shows "linefit env gaussian_spectrum [4, 5000, 9 / 5] ''gaussian'' None [] None 1 ''SLSQP''
           default_minopts None None = Inl TypeError"
proof -
  let ?self1 = "gaussian_spectrum\<lparr>fit_func := Some Gauss, parnames := Some (parnames_of Gauss)\<rparr>"
  let ?s = "map (\<lambda>l. 5 * exp (- (l - 5000)\<^sup>2 / (2 * 2\<^sup>2))) wl10"
  have sel: "linefit_select env ?self1
       [True, True, True, True, True, True, True, True, True, True]
       [False, False, False, False, False, False, False, False, False, False]
       returns_function None =
     Inr \<lparr>sel_self = ?self1\<lparr>fitcont := Some flat10, fitwl := Some wl10,
                 fitspec := Some (map (\<lambda>_. 0) flat10),
                 resultspec := Some (map (\<lambda>_. 0) flat10)\<rparr>,
          sel_wl = wl10, sel_w = flat10, sel_cont = flat10, sel_s = ?s, sel_v = flat10\<rparr>"
    using cont
    by (simp add: linefit_select_def np_defs gaussian_spectrum_def gaussian_data_def
        line_spectrum_def Spectrum_new_def wl10_def flat10_def Let_def)
  have pos: "0 < sum_list ?s"
    by (simp add: wl10_def add_pos_pos)
  have scl: "linefit_scale ?s flat10 [4, 5000, 9 / 5] None 3 = Inl TypeError"
    using pos
    by (simp add: linefit_scale_def np_mean_def scale_bounds_def ebind_def Let_def wl10_def
        not_le)
  show ?thesis
    using sel scl
    by (simp add: linefit_def line_pre gaussian_pre ebind_def getattr_def Let_def
        npars_pc_of_def returns_function_def)
qed

theorem linefit_default_bounds_raises_witness:
  "linefit example_env gaussian_spectrum [4, 5000, 9 / 5] ''gaussian'' None [] None 1 ''SLSQP''
           default_minopts None None = Inl TypeError"
proof -
  have "continuum example_env wl10 gaussian_data returns_function = Inr flat10"
    by (simp add: example_env_def wl10_def flat10_def)
  then show ?thesis by (rule linefit_default_bounds_raises)
qed

section \<open>Properties of Cube.linefit\<close>

lemma call_linefit_cube_error:
  assumes "call_linefit ce (spec_at cube h) (Vec v) kw = Inl e"
  shows "e \<in> {TypeError, NameError, AttributeError, ValueError}"
  using assms
  by (auto simp: call_linefit_def linefit_def linefit_select_def ebind_def getattr_def Let_def
        spec_at_def Spectrum_new_def profile_of_def fitting_mask_def np_and_def
      split: if_splits option.splits sum.splits)

lemma call_linefit_cube_returns:
  assumes "call_linefit ce (spec_at cube h) p0 kw = Inr out"
  shows "too_many_flagged (cube_flags cube h) \<and> kw_feature_wl kw = None"
  using assms
  by (auto simp: call_linefit_def linefit_def linefit_select_def ebind_def getattr_def Let_def
        spec_at_def Spectrum_new_def profile_of_def fitting_mask_def np_and_def
      split: if_splits option.splits sum.splits guess.splits)

lemma cube_step_first_raises:
  "\<exists>e. cube_step ce npars fit_npixels refit update_bounds bound_range refit_radius
          original_bounds
          \<lparr>ls_cube = c, ls_sol = sol, ls_p0 = Vec v, ls_kwargs = kw, ls_is_first_spec = True,
           ls_spec = sp\<rparr> h = Inl e
      \<and> is_exception e"
proof (cases "call_linefit ce (spec_at c h) (Vec v) kw")
  case (Inl e)
  then have "e \<in> {TypeError, NameError, AttributeError, ValueError}"
    by (rule call_linefit_cube_error)
  with Inl show ?thesis
    by (auto simp: cube_step_def ebind_def Let_def is_exception_def)
next
  case (Inr out)
  then have "kw_feature_wl kw = None"
    using call_linefit_cube_returns by blast
  with Inr show ?thesis
    by (simp add: cube_step_def ebind_def Let_def is_exception_def)
qed

lemma ebind_raises_exception:
  assumes "\<And>e. m = Inl e \<Longrightarrow> is_exception e"
    and "\<And>v. m = Inr v \<Longrightarrow> \<exists>e. f v = Inl e \<and> is_exception e"
  shows "\<exists>e. ebind m f = Inl e \<and> is_exception e"
  using assms by (cases m) (auto simp: ebind_def)

lemma ebind_loop_first_raises:
  "\<exists>e. ebind (cube_loop ce npars fit_npixels refit update_bounds bound_range refit_radius
          original_bounds
          \<lparr>ls_cube = c, ls_sol = sol, ls_p0 = Vec v, ls_kwargs = kw, ls_is_first_spec = True,
           ls_spec = sp\<rparr> (h # hs)) k = Inl e
      \<and> is_exception e"
proof -
  obtain e where "cube_step ce npars fit_npixels refit update_bounds bound_range refit_radius
          original_bounds
          \<lparr>ls_cube = c, ls_sol = sol, ls_p0 = Vec v, ls_kwargs = kw, ls_is_first_spec = True,
           ls_spec = sp\<rparr> h = Inl e" "is_exception e"
    using cube_step_first_raises by blast
  then show ?thesis by (simp add: ebind_def)
qed

lemma spiral_error: "spiral b si xy c = Inl e \<Longrightarrow> e = ValueError"
  by (cases c; cases "if b then xy else si")
     (auto simp: spiral_def ebind_def Let_def split: if_splits sum.splits)

lemma Cube_linefit_raises:
  "\<exists>e. Cube_linefit ce self p0 refit update_bounds bound_range spiral_loop spiral_center
          refit_radius kw = Inl e
      \<and> is_exception e"
  apply (simp only: Cube_linefit_def Let_def)
  apply (split if_split)
  apply (intro conjI impI)
   apply (simp add: is_exception_def)
  apply (rule ebind_raises_exception)
  subgoal for e
    using spiral_error [of "cube_binned self" "cube_spec_indices self" "cube_spec_indices self"
        spiral_center e]
    by (auto simp: is_exception_def split: if_splits)
  subgoal for xy
  proof (cases xy)
    case Nil
    then show ?thesis by (simp add: is_exception_def)
  next
    case (Cons h0 rest)
    then show ?thesis
      by (simp add: ebind_loop_first_raises del: cube_loop.simps)
  qed
  done

lemma flagged_spaxel_not_stored:
  assumes fl: "too_many_flagged (cube_flags cube h)"
    and call: "call_linefit ce (spec_at cube h) p0 kw = Inr out"
  shows "ret out = None \<and> fit_status (self_after out) = Some 98
       \<and> em_model (self_after out) = None \<and> component_names (self_after out) = None
       \<and> cube_scatter npars fit_npixels cube' sol (self_after out) h = Inl AttributeError"
proof -
  from call obtain v where p0: "p0 = Vec v"
    by (cases p0) (auto simp: call_linefit_def split: if_splits)
  let ?fn = "case kw_function kw of None \<Rightarrow> ''gaussian'' | Some f \<Rightarrow> f"
  from call p0 have lf: "linefit (spectrum_env ce) (spec_at cube h) v ?fn
            (kw_fitting_window kw)
            (case kw_constraints kw of None \<Rightarrow> [] | Some c \<Rightarrow> c)
            (kw_bounds kw)
            (case kw_inst_disp kw of None \<Rightarrow> 1 | Some d \<Rightarrow> d)
            (case kw_min_method kw of None \<Rightarrow> ''SLSQP'' | Some m \<Rightarrow> m)
            (case kw_minopts kw of None \<Rightarrow> default_minopts | Some opts \<Rightarrow> opts)
            (kw_copts kw) None = Inr out"
    by (auto simp: call_linefit_def split: if_splits)
  then obtain prof fw where
    p: "profile_of ?fn = Inr prof"
    and m: "fitting_mask ((spec_at cube h)\<lparr>fit_func := Some prof,
              parnames := Some (parnames_of prof)\<rparr>) (kw_fitting_window kw) = Inr fw"
    by (auto simp: linefit_def ebind_def Let_def split: sum.splits)
  have f: "flags (spec_at cube h) = Some (cube_flags cube h)"
    by (simp add: spec_at_def)
  from linefit_flagged_branch [OF p m f fl] lf
  have out: "out = \<lparr>ret = None,
              self_after = (spec_at cube h)\<lparr>fit_func := Some prof,
                 parnames := Some (parnames_of prof), fit_status := Some 98\<rparr>,
              p0_after = v, bounds_after = kw_bounds kw,
              copts_after = map_option (AList.update ''returns'' (CStr ''function''))
                              (kw_copts kw)\<rparr>"
    by simp
  show ?thesis
    by (simp add: out spec_at_def Spectrum_new_def cube_scatter_def ebind_def getattr_def)
qed

lemma flagged_cube_call:
  "call_linefit ce (spec_at (c\<lparr>cube_flags := cube_flags flagged_cube\<rparr>) (0, 0)) (Vec [4, 5000, 9 / 5])
     bounds_kwargs =
   Inr \<lparr>ret = None,
        self_after = (spec_at (c\<lparr>cube_flags := cube_flags flagged_cube\<rparr>) (0, 0))\<lparr>
           fit_func := Some Gauss, parnames := Some (parnames_of Gauss),
           fit_status := Some 98\<rparr>,
        p0_after = [4, 5000, 9 / 5], bounds_after = Some no_bounds3, copts_after = None\<rparr>"
proof -
  let ?spec = "spec_at (c\<lparr>cube_flags := cube_flags flagged_cube\<rparr>) (0, 0)"
  have p: "profile_of ''gaussian'' = Inr Gauss" by (simp add: profile_of_def)
  have m: "fitting_mask (?spec\<lparr>fit_func := Some Gauss, parnames := Some (parnames_of Gauss)\<rparr>)
             None = Inr (map (\<lambda>_. True) (cube_data c (0, 0)))"
    by (simp add: fitting_mask_def ebind_def getattr_def spec_at_def)
  have f: "flags ?spec = Some [True, True, True, True, True, True, True, True, True, True]"
    by (simp add: spec_at_def flagged_cube_def)
  have t: "too_many_flagged [True, True, True, True, True, True, True, True, True, True]"
    by (simp add: too_many_flagged_def)
  show ?thesis
    by (simp add: call_linefit_def bounds_kwargs_def no_kwargs_def linefit_flagged_branch [OF p m f t])
qed

text \<open>
  Claim C1. The claim lets a cube run go on past a spaxel whose pixels are all flagged.
  With the two modules as they are, no run gets past its first spaxel (lemma
  \<open>Cube_linefit_raises\<close>): \<^verbatim>\<open>Cube.linefit\<close> reads \<^verbatim>\<open>kwargs['feature_wl']\<close> after every fit,
  which raises KeyError when the key is missing, and passes \<^verbatim>\<open>**kwargs\<close> to
  \<^verbatim>\<open>Spectrum.linefit\<close>, which has no parameter of that name and raises TypeError when the
  key is there. Apart from that, the fit of the flagged spaxel leaves \<^verbatim>\<open>spec.em_model\<close>
  and \<^verbatim>\<open>spec.component_names\<close> unset, so that \<^verbatim>\<open>sol[:, i, j] = spec.em_model\<close> raises
  AttributeError (lemma \<open>flagged_spaxel_not_stored\<close>), and the fit of any other spaxel
  raises inside \<^verbatim>\<open>Spectrum.linefit\<close>, which reads \<^verbatim>\<open>self.restwl\<close> where \<^verbatim>\<open>Cube.linefit\<close> has
  set \<^verbatim>\<open>spec.rest_wavelength\<close> (lemma \<open>call_linefit_cube_returns\<close>). For the cube of two
  spaxels whose first spaxel is flagged, the run ends with KeyError, or with TypeError
  when \<^verbatim>\<open>feature_wl\<close> is passed.
\<close>

theorem cube_linefit_flagged_spaxel:
  "Cube_linefit ce flagged_cube [4, 5000, 9 / 5] False False (1 / 10) False None 3
     bounds_kwargs = Inl KeyError
   \<and> Cube_linefit ce flagged_cube [4, 5000, 9 / 5] False False (1 / 10) False None 3
     (bounds_kwargs\<lparr>kw_feature_wl := Some [5000]\<rparr>) = Inl TypeError"
proof -
  have g: "grid_coords (1, 2) = [(0, 0), (0, 1)]" "grid_coords (Suc 0, 2) = [(0, 0), (0, 1)]"
    by (simp_all add: grid_coords_def upt_rec)
  have a: "list_ex (\<lambda>q. list_ex (\<lambda>(a, b). b \<and> a \<noteq> 0)
              (zip (cube_data flagged_cube q) (map (\<lambda>l. True) (cube_rest_wavelength flagged_cube))))
            (grid_coords (cube_shape flagged_cube))"
    by (simp add: flagged_cube_def line_cube_def g wl10_def)
  have si: "cube_spec_indices flagged_cube = [(0, 0), (0, 1)]"
    by (simp add: flagged_cube_def line_cube_def g)
  have fc: "c\<lparr>cube_flags := cube_flags flagged_cube\<rparr> = c" if "cube_flags c = cube_flags flagged_cube" for c
    using that by simp
  have step1: "cube_step ce n fit_npixels False False (1 / 10) 3 (Some no_bounds3)
      \<lparr>ls_cube = c, ls_sol = sol, ls_p0 = Vec [4, 5000, 9 / 5], ls_kwargs = bounds_kwargs,
       ls_is_first_spec = True, ls_spec = None\<rparr> (0, 0) = Inl KeyError"
    if "cube_flags c = cube_flags flagged_cube" for c sol fit_npixels n
    using flagged_cube_call [of ce c] fc [OF that]
    by (simp add: cube_step_def ebind_def Let_def bounds_kwargs_def no_kwargs_def)
  have step2: "cube_step ce n fit_npixels False False (1 / 10) 3 (Some no_bounds3)
      \<lparr>ls_cube = c, ls_sol = sol, ls_p0 = Vec [4, 5000, 9 / 5],
       ls_kwargs = bounds_kwargs\<lparr>kw_feature_wl := Some [5000]\<rparr>,
       ls_is_first_spec = True, ls_spec = None\<rparr> (0, 0) = Inl TypeError"
    for c sol fit_npixels n
    by (simp add: cube_step_def call_linefit_def ebind_def Let_def bounds_kwargs_def no_kwargs_def)
  have kb: "kw_bounds bounds_kwargs = Some no_bounds3"
     "kw_fitting_window bounds_kwargs = None"
    by (simp_all add: bounds_kwargs_def no_kwargs_def)
  show ?thesis
    using a
    by (simp add: Cube_linefit_def Let_def si kb ebind_def step1 step2)
qed







end
